theory Spec2Isabelle
  imports Main
begin

section \<open>Schema contracts (types.ts)\<close>

text \<open>
  \<^verbatim>\<open>CompanyType\<close> is a TypeScript string enum: at run time its four members are the
  strings below, and a field of that type holds a string.
\<close>

definition PRODUCT :: string where
  "PRODUCT = ''Product-based''"

definition SERVICE :: string where
  "SERVICE = ''Service-based''"

definition STARTUP :: string where
  "STARTUP = ''Startup''"

definition UNKNOWN :: string where
  "UNKNOWN = ''General''"

definition CompanyType :: "string list" where
  "CompanyType = [PRODUCT, SERVICE, STARTUP, UNKNOWN]"

record JobAnalysis =
  role :: string
  company :: string
  type :: string
  skills :: "string list"
  summary :: string

record StudyModule =
  week :: string
  topic :: string
  description :: string
  resources :: "string list"

record TrainingPlan =
  techStack :: "string list"
  studyPlan :: "StudyModule list"

text \<open>The field \<^verbatim>\<open>id\<close> of a quiz question is written \<open>id'\<close>.\<close>

record QuizQuestion =
  id' :: int
  category :: string
  question :: string
  options :: "string list"
  correctAnswer :: int
  explanation :: string

record StarterCode =
  python :: string
  javascript :: string
  java :: string

record CodeChallenge =
  title :: string
  description :: string
  difficulty :: string
  starterCode :: StarterCode

section \<open>Generation client (services/gemini)\<close>

text \<open>
  Values a \<^verbatim>\<open>throw\<close> or a rejected promise can carry: the \<^verbatim>\<open>Error\<close> objects the
  client creates itself, the \<^verbatim>\<open>SyntaxError\<close> of \<^verbatim>\<open>JSON.parse\<close>, the \<^verbatim>\<open>TypeError\<close> of a
  property read on \<^verbatim>\<open>undefined\<close>, and whatever the remote call rejects with.
\<close>

datatype exn = Error string | SyntaxError | TypeError | ServiceError string

text \<open>
  What \<^verbatim>\<open>await ai.models.generateContent(...)\<close> evaluates to: the call rejects, or it
  yields a response whose \<^verbatim>\<open>text\<close> property is a string or \<^verbatim>\<open>undefined\<close>. The request
  (prompt template, inline image, schema) is built from string templates and object
  literals; it only determines which reply the service gives, and every function
  below is stated for an arbitrary reply.

  \<^verbatim>\<open>JSON.parse(t) as T\<close> is a parameter \<open>JSON_parse\<close>: it throws on malformed text and
  otherwise yields a value that the cast takes to be of type \<open>T\<close> without looking at
  it, so the fields of a parsed value are unconstrained.
\<close>

type_synonym reply = "exn + string option"

type_synonym 'a parser = "string \<Rightarrow> exn + 'a"

text \<open>Truthiness of a \<^verbatim>\<open>string | undefined | null\<close> value: defined and not empty.\<close>

definition truthy :: "'a list option \<Rightarrow> bool" where
  "truthy v = (case v of None \<Rightarrow> False | Some t \<Rightarrow> t \<noteq> [])"

text \<open>The \<^verbatim>\<open>||\<close> operator with a string default.\<close>

definition or_default :: "string option \<Rightarrow> string \<Rightarrow> string" where
  "or_default v d = (case v of None \<Rightarrow> d | Some t \<Rightarrow> if t = [] then d else t)"

text \<open>The \<^verbatim>\<open>try\<close> block of \<^verbatim>\<open>analyzeJobDescription\<close>.\<close>

definition analyze_try :: "JobAnalysis parser \<Rightarrow> reply \<Rightarrow> exn + JobAnalysis" where
  "analyze_try JSON_parse sent =
     (case sent of
        Inl e \<Rightarrow> Inl e
      | Inr response_text \<Rightarrow>
          (case response_text of
             None \<Rightarrow> Inl (Error ''No response text from Gemini'')
           | Some t \<Rightarrow>
               if t \<noteq> [] then JSON_parse t
               else Inl (Error ''No response text from Gemini'')))"

definition analyze_fallback :: "string option \<Rightarrow> JobAnalysis" where
  "analyze_fallback userProvidedCompany =
     \<lparr>role = ''Software Engineer'',
      company = or_default userProvidedCompany ''Unknown Company'',
      type = UNKNOWN,
      skills = [''Problem Solving''],
      summary = ''Could not analyze the JD properly. Please try again.''\<rparr>"

text \<open>
  The result is a sum so that a rejection of the returned promise would be a value
  \<open>Inl\<close>; the \<^verbatim>\<open>catch\<close> block turns every \<open>Inl\<close> of the \<^verbatim>\<open>try\<close> block into the fallback.
\<close>

definition analyzeJobDescription ::
  "JobAnalysis parser \<Rightarrow> reply \<Rightarrow> string \<Rightarrow> string option \<Rightarrow> string option \<Rightarrow> exn + JobAnalysis"
where
  "analyzeJobDescription JSON_parse sent jd imageBase64 userProvidedCompany =
     (case analyze_try JSON_parse sent of
        Inr analysis \<Rightarrow> Inr analysis
      | Inl e \<Rightarrow> Inr (analyze_fallback userProvidedCompany))"

definition generateStudyPlan_try :: "StudyModule list parser \<Rightarrow> reply \<Rightarrow> exn + StudyModule list" where
  "generateStudyPlan_try JSON_parse sent =
     (case sent of
        Inl e \<Rightarrow> Inl e
      | Inr response_text \<Rightarrow>
          (case response_text of
             None \<Rightarrow> Inl (Error ''No plan generated'')
           | Some t \<Rightarrow> if t \<noteq> [] then JSON_parse t else Inl (Error ''No plan generated'')))"

definition generateStudyPlan ::
  "StudyModule list parser \<Rightarrow> reply \<Rightarrow> JobAnalysis \<Rightarrow> exn + StudyModule list"
where
  "generateStudyPlan JSON_parse sent job =
     (case generateStudyPlan_try JSON_parse sent of
        Inr modules \<Rightarrow> Inr modules
      | Inl e \<Rightarrow> Inr [])"

text \<open>In \<^verbatim>\<open>generateQuiz\<close> a reply without text returns the empty list from the \<^verbatim>\<open>try\<close> block.\<close>

definition generateQuiz_try :: "QuizQuestion list parser \<Rightarrow> reply \<Rightarrow> exn + QuizQuestion list" where
  "generateQuiz_try JSON_parse sent =
     (case sent of
        Inl e \<Rightarrow> Inl e
      | Inr response_text \<Rightarrow>
          (case response_text of
             None \<Rightarrow> Inr []
           | Some t \<Rightarrow> if t \<noteq> [] then JSON_parse t else Inr []))"

definition generateQuiz ::
  "QuizQuestion list parser \<Rightarrow> reply \<Rightarrow> JobAnalysis \<Rightarrow> exn + QuizQuestion list"
where
  "generateQuiz JSON_parse sent job =
     (case generateQuiz_try JSON_parse sent of
        Inr questions \<Rightarrow> Inr questions
      | Inl e \<Rightarrow> Inr [])"

definition generateCodeChallenges_try ::
  "CodeChallenge list parser \<Rightarrow> reply \<Rightarrow> exn + CodeChallenge list"
where
  "generateCodeChallenges_try JSON_parse sent =
     (case sent of
        Inl e \<Rightarrow> Inl e
      | Inr response_text \<Rightarrow>
          (case response_text of
             None \<Rightarrow> Inl (Error ''No challenge generated'')
           | Some t \<Rightarrow> if t \<noteq> [] then JSON_parse t else Inl (Error ''No challenge generated'')))"

definition two_sum_fallback :: "JobAnalysis \<Rightarrow> CodeChallenge list" where
  "two_sum_fallback job =
     [\<lparr>title = ''Two Sum'',
       description =
         ''Given an array of integers nums and an integer target, return indices of the two numbers such that they add up to target. (Often asked by ''
           @ company job @ '')'',
       difficulty = ''Easy'',
       starterCode =
         \<lparr>python = ''def two_sum(nums, target):\<newline>    # Write your code here\<newline>    pass'',
          javascript = ''function twoSum(nums, target) {\<newline>    // Write your code here\<newline>}'',
          java = ''class Solution {\<newline>    public int[] twoSum(int[] nums, int target) {\<newline>        // Write your code here\<newline>        return new int[]{};\<newline>    }\<newline>}''\<rparr>\<rparr>]"

definition generateCodeChallenges ::
  "CodeChallenge list parser \<Rightarrow> reply \<Rightarrow> JobAnalysis \<Rightarrow> exn + CodeChallenge list"
where
  "generateCodeChallenges JSON_parse sent job =
     (case generateCodeChallenges_try JSON_parse sent of
        Inr found \<Rightarrow> Inr found
      | Inl e \<Rightarrow> Inr (two_sum_fallback job))"

text \<open>The index property of a quiz entry: \<^verbatim>\<open>0 <= correctAnswer < options.length\<close>.\<close>

definition valid_index :: "QuizQuestion \<Rightarrow> bool" where
  "valid_index q = (0 \<le> correctAnswer q \<and> correctAnswer q < int (length (options q)))"

section \<open>Intake form (components/JobAnalyzer)\<close>

text \<open>
  The component's state slots. Its \<^verbatim>\<open>activeTab\<close> is \<^verbatim>\<open>'text' | 'image'\<close>; the slot
  \<^verbatim>\<open>text\<close> is written \<open>text'\<close>.

  What the user types or loads is a JavaScript string: a list of UTF-16 code units,
  each written as its number. \<open>utf16\<close> gives the code units of a string of the
  characters below U+0100.
\<close>

type_synonym js_string = "nat list"

definition utf16 :: "string \<Rightarrow> js_string" where
  "utf16 t = map of_char t"

datatype InputTab = TextTab | ImageTab

record JobAnalyzerState =
  activeTab :: InputTab
  text' :: js_string
  companyName :: js_string
  image :: "js_string option"
  dragActive :: bool
  error :: string

text \<open>
  \<^verbatim>\<open>String.prototype.trim\<close> removes, at both ends, the white space and the line
  terminators of ECMAScript: U+0009 to U+000D, U+0020, U+00A0, U+1680, U+2000 to
  U+200A, U+2028, U+2029, U+202F, U+205F, U+3000 and U+FEFF.
\<close>

definition whitespace :: "nat \<Rightarrow> bool" where
  "whitespace u =
     (u \<in> set [0x0009, 0x000A, 0x000B, 0x000C, 0x000D, 0x0020, 0x00A0, 0x1680,
                0x2028, 0x2029, 0x202F, 0x205F, 0x3000, 0xFEFF]
      \<or> (0x2000 \<le> u \<and> u \<le> 0x200A))"

definition trim :: "js_string \<Rightarrow> js_string" where
  "trim t = rev (dropWhile whitespace (rev (dropWhile whitespace t)))"

text \<open>\<^verbatim>\<open>t.split(sep)\<close> for a separator of one code unit, and an index read that may be \<^verbatim>\<open>undefined\<close>.\<close>

fun js_split :: "nat \<Rightarrow> js_string \<Rightarrow> js_string list" where
  "js_split sep [] = [[]]"
| "js_split sep (c # cs) =
     (if c = sep then [] # js_split sep cs
      else (case js_split sep cs of
              [] \<Rightarrow> [[c]]
            | piece # pieces \<Rightarrow> (c # piece) # pieces))"

definition at_index :: "'a list \<Rightarrow> nat \<Rightarrow> 'a option" where
  "at_index xs i = (if i < length xs then Some (xs ! i) else None)"

text \<open>
  \<^verbatim>\<open>handleSubmit\<close> returns the component's new state and, when it reaches
  \<^verbatim>\<open>onAnalyze(text, base64Data, companyName)\<close>, the three arguments of that call.
\<close>

definition handleSubmit ::
  "JobAnalyzerState \<Rightarrow> JobAnalyzerState \<times> (js_string \<times> js_string option \<times> js_string option) option"
where
  "handleSubmit f =
     (if trim (companyName f) = [] then
        (f\<lparr>error := ''Please enter a target company name.''\<rparr>, None)
      else if JobAnalyzerState.activeTab f = TextTab \<and> trim (text' f) = [] then
        (f\<lparr>error := ''Please paste the job description text.''\<rparr>, None)
      else if JobAnalyzerState.activeTab f = ImageTab \<and> \<not> truthy (image f) then
        (f\<lparr>error := ''Please upload a job description image.''\<rparr>, None)
      else
        (let base64Data =
               (case image f of
                  None \<Rightarrow> None
                | Some url \<Rightarrow> if url \<noteq> [] then at_index (js_split (of_char (CHR '','')) url) 1 else None)
         in (f\<lparr>error := []\<rparr>, Some (text' f, base64Data, Some (companyName f)))))"

section \<open>Orchestration pipeline (App)\<close>

datatype Tab = ANALYSIS | PLAN | QUIZ | CODE

record AppState =
  activeTab :: Tab
  loading :: bool
  jobData :: "JobAnalysis option"
  trainingPlan :: "TrainingPlan option"
  quiz :: "QuizQuestion list"
  challenges :: "CodeChallenge list"

text \<open>
  The application runs on one thread: a handler runs up to its next \<^verbatim>\<open>await\<close>, and the
  rest of it runs when the awaited promise settles. The model is therefore a
  transition system. Its state holds the state slots of \<^verbatim>\<open>App\<close> and of the intake form,
  the invocations of \<^verbatim>\<open>handleAnalyze\<close> that are suspended at an \<^verbatim>\<open>await\<close> (each numbered
  when it starts), the alerts shown, and a log of what a recording test double of the
  generation client would see, newest entry first. An event is a user action or the
  settling of a promise of the generation client, with the value it resolves to
  (\<open>Inr\<close>) or rejects with (\<open>Inl\<close>).

  A state update takes effect with the step that makes it, and the updates of one
  continuation are applied together, so what is rendered after a step (the button's
  \<^verbatim>\<open>disabled\<close> attribute among it) reads the state that the step has left. The events
  let a promise of the client reject, although the four functions of the client above
  always resolve: the \<^verbatim>\<open>catch\<close> block of \<^verbatim>\<open>handleAnalyze\<close> is written for such a
  rejection.
\<close>

datatype operation =
  AnalyzeJobDescription | GenerateStudyPlan | GenerateQuiz | GenerateCodeChallenges

datatype observation =
    Issued nat operation
  | Returned nat operation
  | Threw nat operation
  | Ready nat
  | RefreshIssued operation
  | RefreshReturned operation

text \<open>
  Where an invocation of \<^verbatim>\<open>handleAnalyze\<close> is suspended: at the first \<^verbatim>\<open>await\<close>, or at
  \<^verbatim>\<open>await Promise.all([...])\<close> with the analysis in hand and, for each of the three
  promises in the array, its value once it has resolved.
\<close>

datatype suspended =
    AwaitAnalyze
  | AwaitAll JobAnalysis "StudyModule list option" "QuizQuestion list option"
      "CodeChallenge list option"

record System =
  app :: AppState
  form :: JobAnalyzerState
  runs :: "(nat \<times> suspended) list"
  nextRun :: nat
  alerts :: "string list"
  log :: "observation list"
  quizRefreshes :: nat
  challengeRefreshes :: nat

definition initial :: System where
  "initial =
     \<lparr>app = \<lparr>activeTab = ANALYSIS, loading = False, jobData = None, trainingPlan = None,
             quiz = [], challenges = []\<rparr>,
      form = \<lparr>JobAnalyzerState.activeTab = TextTab, text' = [], companyName = [],
              image = None, dragActive = False, error = []\<rparr>,
      runs = [], nextRun = 0, alerts = [], log = [],
      quizRefreshes = 0, challengeRefreshes = 0\<rparr>"

definition setActiveTab :: "Tab \<Rightarrow> System \<Rightarrow> System" where
  "setActiveTab t s = s\<lparr>app := (app s)\<lparr>activeTab := t\<rparr>\<rparr>"

definition setLoading :: "bool \<Rightarrow> System \<Rightarrow> System" where
  "setLoading b s = s\<lparr>app := (app s)\<lparr>loading := b\<rparr>\<rparr>"

definition setJobData :: "JobAnalysis option \<Rightarrow> System \<Rightarrow> System" where
  "setJobData a s = s\<lparr>app := (app s)\<lparr>jobData := a\<rparr>\<rparr>"

definition setTrainingPlan :: "TrainingPlan option \<Rightarrow> System \<Rightarrow> System" where
  "setTrainingPlan p s = s\<lparr>app := (app s)\<lparr>trainingPlan := p\<rparr>\<rparr>"

definition setQuiz :: "QuizQuestion list \<Rightarrow> System \<Rightarrow> System" where
  "setQuiz q s = s\<lparr>app := (app s)\<lparr>quiz := q\<rparr>\<rparr>"

definition setChallenges :: "CodeChallenge list \<Rightarrow> System \<Rightarrow> System" where
  "setChallenges c s = s\<lparr>app := (app s)\<lparr>challenges := c\<rparr>\<rparr>"

definition alert :: "string \<Rightarrow> System \<Rightarrow> System" where
  "alert msg s = s\<lparr>alerts := msg # alerts s\<rparr>"

definition observe :: "observation \<Rightarrow> System \<Rightarrow> System" where
  "observe x s = s\<lparr>log := x # log s\<rparr>"

definition suspend :: "nat \<Rightarrow> suspended \<Rightarrow> System \<Rightarrow> System" where
  "suspend rid at s =
     s\<lparr>runs := map (\<lambda>(r, w). if r = rid then (r, at) else (r, w)) (runs s)\<rparr>"

definition finish :: "nat \<Rightarrow> System \<Rightarrow> System" where
  "finish rid s = s\<lparr>runs := filter (\<lambda>(r, w). r \<noteq> rid) (runs s)\<rparr>"

text \<open>
  \<^verbatim>\<open>handleAnalyze\<close> up to its first \<^verbatim>\<open>await\<close>: \<^verbatim>\<open>setLoading(true)\<close>, then the call of
  \<^verbatim>\<open>analyzeJobDescription(text, imageBase64, company)\<close>.
\<close>

definition handleAnalyze ::
  "js_string \<Rightarrow> js_string option \<Rightarrow> js_string option \<Rightarrow> System \<Rightarrow> System"
where
  "handleAnalyze jd imageBase64 company' s =
     (let s1 = setLoading True s;
          rid = nextRun s1
      in observe (Issued rid AnalyzeJobDescription)
           (s1\<lparr>runs := runs s1 @ [(rid, AwaitAnalyze)], nextRun := Suc rid\<rparr>))"

text \<open>The \<^verbatim>\<open>catch\<close> block followed by the \<^verbatim>\<open>finally\<close> block; the invocation is over.\<close>

definition handleAnalyze_catch :: "nat \<Rightarrow> System \<Rightarrow> System" where
  "handleAnalyze_catch rid s =
     finish rid
       (setLoading False
          (alert ''Something went wrong during analysis. Please try again.'' s))"

text \<open>
  The first \<^verbatim>\<open>await\<close> settles. A value goes to \<^verbatim>\<open>setJobData\<close> and the three dependent
  calls are made, in the order of the array; a rejection goes to the \<^verbatim>\<open>catch\<close> block.
\<close>

definition handleAnalyze_analyzed :: "nat \<Rightarrow> exn + JobAnalysis \<Rightarrow> System \<Rightarrow> System" where
  "handleAnalyze_analyzed rid outcome s =
     (case map_of (runs s) rid of
        Some AwaitAnalyze \<Rightarrow>
          (case outcome of
             Inl e \<Rightarrow> handleAnalyze_catch rid (observe (Threw rid AnalyzeJobDescription) s)
           | Inr analysis \<Rightarrow>
               observe (Issued rid GenerateCodeChallenges)
                 (observe (Issued rid GenerateQuiz)
                    (observe (Issued rid GenerateStudyPlan)
                       (suspend rid (AwaitAll analysis None None None)
                          (setJobData (Some analysis)
                             (observe (Returned rid AnalyzeJobDescription) s))))))
      | _ \<Rightarrow> s)"

text \<open>
  The statements after \<^verbatim>\<open>await Promise.all([...])\<close>, then the \<^verbatim>\<open>finally\<close> block. React
  applies the state updates of one continuation together.
\<close>

definition handleAnalyze_joined ::
  "nat \<Rightarrow> JobAnalysis \<Rightarrow> StudyModule list \<Rightarrow> QuizQuestion list \<Rightarrow> CodeChallenge list
     \<Rightarrow> System \<Rightarrow> System"
where
  "handleAnalyze_joined rid analysis planModules quizQuestions codeChallenges s =
     finish rid
       (setLoading False
          (observe (Ready rid)
             (setActiveTab PLAN
                (setChallenges codeChallenges
                   (setQuiz quizQuestions
                      (setTrainingPlan
                         (Some \<lparr>techStack = skills analysis, studyPlan = planModules\<rparr>) s))))))"

text \<open>\<^verbatim>\<open>Promise.all\<close> resolves once each of the three promises has resolved.\<close>

definition promise_all :: "nat \<Rightarrow> System \<Rightarrow> System" where
  "promise_all rid s =
     (case map_of (runs s) rid of
        Some (AwaitAll analysis (Some planModules) (Some quizQuestions) (Some codeChallenges)) \<Rightarrow>
          handleAnalyze_joined rid analysis planModules quizQuestions codeChallenges s
      | _ \<Rightarrow> s)"

text \<open>
  One of the three promises settles. \<^verbatim>\<open>Promise.all\<close> rejects with the first rejection,
  which goes to the \<^verbatim>\<open>catch\<close> block; the calls still in flight are not cancelled, and
  nothing waits for them any more.
\<close>

definition studyPlan_settled :: "nat \<Rightarrow> exn + StudyModule list \<Rightarrow> System \<Rightarrow> System" where
  "studyPlan_settled rid outcome s =
     (case map_of (runs s) rid of
        Some (AwaitAll analysis None q c) \<Rightarrow>
          (case outcome of
             Inl e \<Rightarrow> handleAnalyze_catch rid (observe (Threw rid GenerateStudyPlan) s)
           | Inr planModules \<Rightarrow>
               promise_all rid
                 (suspend rid (AwaitAll analysis (Some planModules) q c)
                    (observe (Returned rid GenerateStudyPlan) s)))
      | _ \<Rightarrow> s)"

definition quiz_settled :: "nat \<Rightarrow> exn + QuizQuestion list \<Rightarrow> System \<Rightarrow> System" where
  "quiz_settled rid outcome s =
     (case map_of (runs s) rid of
        Some (AwaitAll analysis p None c) \<Rightarrow>
          (case outcome of
             Inl e \<Rightarrow> handleAnalyze_catch rid (observe (Threw rid GenerateQuiz) s)
           | Inr quizQuestions \<Rightarrow>
               promise_all rid
                 (suspend rid (AwaitAll analysis p (Some quizQuestions) c)
                    (observe (Returned rid GenerateQuiz) s)))
      | _ \<Rightarrow> s)"

definition challenges_settled :: "nat \<Rightarrow> exn + CodeChallenge list \<Rightarrow> System \<Rightarrow> System" where
  "challenges_settled rid outcome s =
     (case map_of (runs s) rid of
        Some (AwaitAll analysis p q None) \<Rightarrow>
          (case outcome of
             Inl e \<Rightarrow> handleAnalyze_catch rid (observe (Threw rid GenerateCodeChallenges) s)
           | Inr codeChallenges \<Rightarrow>
               promise_all rid
                 (suspend rid (AwaitAll analysis p q (Some codeChallenges))
                    (observe (Returned rid GenerateCodeChallenges) s)))
      | _ \<Rightarrow> s)"

text \<open>
  \<^verbatim>\<open>refreshQuiz\<close> and \<^verbatim>\<open>refreshChallenges\<close> up to their \<^verbatim>\<open>await\<close>, and the statement after
  it. They have no \<^verbatim>\<open>try\<close>: a rejection leaves the state as it is.
\<close>

definition refreshQuiz :: "System \<Rightarrow> System" where
  "refreshQuiz s =
     (case jobData (app s) of
        None \<Rightarrow> s
      | Some job \<Rightarrow> observe (RefreshIssued GenerateQuiz) (s\<lparr>quizRefreshes := Suc (quizRefreshes s)\<rparr>))"

definition refreshQuiz_settled :: "exn + QuizQuestion list \<Rightarrow> System \<Rightarrow> System" where
  "refreshQuiz_settled outcome s =
     (case quizRefreshes s of
        0 \<Rightarrow> s
      | Suc n \<Rightarrow>
          (case outcome of
             Inl e \<Rightarrow> s\<lparr>quizRefreshes := n\<rparr>
           | Inr newQuiz \<Rightarrow>
               setQuiz newQuiz (observe (RefreshReturned GenerateQuiz) (s\<lparr>quizRefreshes := n\<rparr>))))"

definition refreshChallenges :: "System \<Rightarrow> System" where
  "refreshChallenges s =
     (case jobData (app s) of
        None \<Rightarrow> s
      | Some job \<Rightarrow>
          observe (RefreshIssued GenerateCodeChallenges)
            (s\<lparr>challengeRefreshes := Suc (challengeRefreshes s)\<rparr>))"

definition refreshChallenges_settled :: "exn + CodeChallenge list \<Rightarrow> System \<Rightarrow> System" where
  "refreshChallenges_settled outcome s =
     (case challengeRefreshes s of
        0 \<Rightarrow> s
      | Suc n \<Rightarrow>
          (case outcome of
             Inl e \<Rightarrow> s\<lparr>challengeRefreshes := n\<rparr>
           | Inr newChallenges \<Rightarrow>
               setChallenges newChallenges
                 (observe (RefreshReturned GenerateCodeChallenges) (s\<lparr>challengeRefreshes := n\<rparr>))))"

text \<open>
  The button "Generate Training Plan". The form is rendered on the analysis tab only,
  the button carries \<^verbatim>\<open>disabled={isLoading}\<close> with \<^verbatim>\<open>isLoading={loading}\<close>, and its
  \<^verbatim>\<open>onClick\<close> is \<^verbatim>\<open>handleSubmit\<close>, whose \<^verbatim>\<open>onAnalyze\<close> is \<^verbatim>\<open>handleAnalyze\<close>.
\<close>

definition click_generate :: "System \<Rightarrow> System" where
  "click_generate s =
     (if activeTab (app s) = ANALYSIS \<and> \<not> loading (app s) then
        (case handleSubmit (form s) of
           (f, None) \<Rightarrow> s\<lparr>form := f\<rparr>
         | (f, Some (jd, imageBase64, company')) \<Rightarrow>
             handleAnalyze jd imageBase64 company' (s\<lparr>form := f\<rparr>))
      else s)"

text \<open>
  The events. \<open>EditForm\<close> stands for any editing of the form between two clicks and
  \<open>Navigate\<close> for any of the buttons that call \<^verbatim>\<open>setActiveTab\<close>; both allow more than
  the rendered page does.
\<close>

datatype event =
    EditForm JobAnalyzerState
  | ClickGenerate
  | Navigate Tab
  | AnalyzeSettled nat "exn + JobAnalysis"
  | StudyPlanSettled nat "exn + StudyModule list"
  | QuizSettled nat "exn + QuizQuestion list"
  | ChallengesSettled nat "exn + CodeChallenge list"
  | ClickRefreshQuiz
  | RefreshQuizSettled "exn + QuizQuestion list"
  | ClickRefreshChallenges
  | RefreshChallengesSettled "exn + CodeChallenge list"

fun step :: "event \<Rightarrow> System \<Rightarrow> System" where
  "step (EditForm f) s = s\<lparr>form := f\<rparr>"
| "step ClickGenerate s = click_generate s"
| "step (Navigate t) s = setActiveTab t s"
| "step (AnalyzeSettled rid outcome) s = handleAnalyze_analyzed rid outcome s"
| "step (StudyPlanSettled rid outcome) s = studyPlan_settled rid outcome s"
| "step (QuizSettled rid outcome) s = quiz_settled rid outcome s"
| "step (ChallengesSettled rid outcome) s = challenges_settled rid outcome s"
| "step ClickRefreshQuiz s = refreshQuiz s"
| "step (RefreshQuizSettled outcome) s = refreshQuiz_settled outcome s"
| "step ClickRefreshChallenges s = refreshChallenges s"
| "step (RefreshChallengesSettled outcome) s = refreshChallenges_settled outcome s"

fun exec :: "event list \<Rightarrow> System \<Rightarrow> System" where
  "exec [] s = s"
| "exec (e # es) s = exec es (step e s)"

text \<open>
  \<open>preceded_by a b l\<close>: every entry \<open>b\<close> of the log \<open>l\<close> has an entry \<open>a\<close> that was logged
  before it (the log is newest first).
\<close>

fun preceded_by :: "observation \<Rightarrow> observation \<Rightarrow> observation list \<Rightarrow> bool" where
  "preceded_by a b [] = True"
| "preceded_by a b (x # earlier) = ((x = b \<longrightarrow> a \<in> set earlier) \<and> preceded_by a b earlier)"

text \<open>
  The pipeline state Idle of the specification ("no analysis yet"), read off the state:
  no invocation is suspended, the loading flag is clear and no analysis is stored.
\<close>

definition Idle :: "System \<Rightarrow> bool" where
  "Idle s = (runs s = [] \<and> \<not> loading (app s) \<and> jobData (app s) = None)"

section \<open>Quiz runner (components/Quiz)\<close>

record QuizState =
  activeCategory :: "string option"
  currentIdx :: nat
  selectedOption :: "int option"
  showResult :: bool
  score :: nat

definition activeQuestions :: "QuizQuestion list \<Rightarrow> QuizState \<Rightarrow> QuizQuestion list" where
  "activeQuestions questions s =
     (case activeCategory s of
        None \<Rightarrow> []
      | Some cat \<Rightarrow> if cat = [] then [] else filter (\<lambda>q. category q = cat) questions)"

text \<open>\<^verbatim>\<open>activeQuestions[currentIdx]\<close>, which is \<^verbatim>\<open>undefined\<close> out of range.\<close>

definition currentQ :: "QuizQuestion list \<Rightarrow> QuizState \<Rightarrow> QuizQuestion option" where
  "currentQ questions s = at_index (activeQuestions questions s) (currentIdx s)"

definition handleCategorySelect :: "string \<Rightarrow> QuizState \<Rightarrow> QuizState" where
  "handleCategorySelect cat s =
     s\<lparr>activeCategory := Some cat, currentIdx := 0, score := 0, selectedOption := None,
       showResult := False\<rparr>"

definition handleBackToTopics :: "QuizState \<Rightarrow> QuizState" where
  "handleBackToTopics s = s\<lparr>activeCategory := None\<rparr>"

text \<open>
  \<^verbatim>\<open>handleSelect\<close> returns the new state and what it threw, if anything: the read
  \<^verbatim>\<open>currentQ.correctAnswer\<close> throws when \<^verbatim>\<open>currentQ\<close> is \<^verbatim>\<open>undefined\<close>, after the two
  state updates before it have been queued.
\<close>

definition handleSelect :: "QuizQuestion list \<Rightarrow> int \<Rightarrow> QuizState \<Rightarrow> QuizState \<times> exn option" where
  "handleSelect questions idx s =
     (if showResult s then (s, None)
      else
        (let s1 = s\<lparr>selectedOption := Some idx, showResult := True\<rparr>
         in case currentQ questions s of
              None \<Rightarrow> (s1, Some TypeError)
            | Some q \<Rightarrow>
                if idx = correctAnswer q then (s1\<lparr>score := score s1 + 1\<rparr>, None)
                else (s1, None)))"

definition handleNext :: "QuizQuestion list \<Rightarrow> QuizState \<Rightarrow> QuizState" where
  "handleNext questions s =
     (if int (currentIdx s) < int (length (activeQuestions questions s)) - 1 then
        s\<lparr>currentIdx := currentIdx s + 1, selectedOption := None, showResult := False\<rparr>
      else s)"

text \<open>
  A run of one category starts with \<^verbatim>\<open>handleCategorySelect\<close>; within it the handlers
  below are called.
\<close>

datatype quiz_event = Select int | Next | BackToTopics

fun quiz_step :: "QuizQuestion list \<Rightarrow> quiz_event \<Rightarrow> QuizState \<Rightarrow> QuizState" where
  "quiz_step questions (Select idx) s = fst (handleSelect questions idx s)"
| "quiz_step questions Next s = handleNext questions s"
| "quiz_step questions BackToTopics s = handleBackToTopics s"

fun quiz_run :: "QuizQuestion list \<Rightarrow> quiz_event list \<Rightarrow> QuizState \<Rightarrow> QuizState" where
  "quiz_run questions [] s = s"
| "quiz_run questions (e # es) s = quiz_run questions es (quiz_step questions e s)"

text \<open>
  \<open>selections\<close> lists, oldest first, the selections of a run that were taken, that is
  made while no result was shown: the index of the question it was made for, that
  question (\<^verbatim>\<open>currentQ\<close>, if there is one) and the option selected. \<open>scored\<close> holds of a
  selection of the question's \<^verbatim>\<open>correctAnswer\<close>, and \<open>of_question\<close> of a selection made
  for a question that exists. \<open>next_open\<close> is the least index at which a selection can
  still be taken.
\<close>

fun selection ::
  "QuizQuestion list \<Rightarrow> quiz_event \<Rightarrow> QuizState \<Rightarrow> (nat \<times> QuizQuestion option \<times> int) list"
where
  "selection questions (Select idx) s =
     (if showResult s then [] else [(currentIdx s, currentQ questions s, idx)])"
| "selection questions Next s = []"
| "selection questions BackToTopics s = []"

fun selections ::
  "QuizQuestion list \<Rightarrow> quiz_event list \<Rightarrow> QuizState \<Rightarrow> (nat \<times> QuizQuestion option \<times> int) list"
where
  "selections questions [] s = []"
| "selections questions (e # es) s =
     selection questions e s @ selections questions es (quiz_step questions e s)"

fun scored :: "nat \<times> QuizQuestion option \<times> int \<Rightarrow> bool" where
  "scored (i, None, idx) = False"
| "scored (i, Some q, idx) = (idx = correctAnswer q)"

fun of_question :: "nat \<times> QuizQuestion option \<times> int \<Rightarrow> bool" where
  "of_question (i, None, idx) = False"
| "of_question (i, Some q, idx) = True"

definition next_open :: "QuizState \<Rightarrow> nat" where
  "next_open s = (if showResult s then Suc (currentIdx s) else currentIdx s)"

section \<open>Invariants of the pipeline\<close>

text \<open>
  Predicates on states that the proofs below carry through every step. \<open>one_run\<close>: at
  most one invocation of \<^verbatim>\<open>handleAnalyze\<close> is suspended, the loading flag is set
  exactly while one is, and an invocation suspended at the join finds its analysis in
  the \<^verbatim>\<open>jobData\<close> slot. \<open>returned_logged\<close>: each promise of the join that has resolved
  has its return in the log. \<open>ordered\<close>: the six orderings of the log that the pipeline
  promises for one run. \<open>slots_kept\<close>: the four state slots that make up the Ready
  state are the same in two states.
\<close>


fun stored :: "JobAnalysis option \<Rightarrow> suspended \<Rightarrow> bool" where
  "stored job AwaitAnalyze = True"
| "stored job (AwaitAll analysis p q c) = (job = Some analysis)"

definition one_run :: "System \<Rightarrow> bool" where
  "one_run s =
     (length (runs s) \<le> 1 \<and> (loading (app s) \<longleftrightarrow> runs s \<noteq> [])
      \<and> list_all (\<lambda>r. stored (jobData (app s)) (snd r)) (runs s))"

fun returned_logged :: "observation list \<Rightarrow> nat \<times> suspended \<Rightarrow> bool" where
  "returned_logged l (rid, AwaitAnalyze) = True"
| "returned_logged l (rid, AwaitAll a p q c) =
     ((p = None \<or> Returned rid GenerateStudyPlan \<in> set l)
      \<and> (q = None \<or> Returned rid GenerateQuiz \<in> set l)
      \<and> (c = None \<or> Returned rid GenerateCodeChallenges \<in> set l))"

definition ordered :: "observation list \<Rightarrow> nat \<Rightarrow> bool" where
  "ordered l rid =
     (preceded_by (Returned rid AnalyzeJobDescription) (Issued rid GenerateStudyPlan) l
      \<and> preceded_by (Returned rid AnalyzeJobDescription) (Issued rid GenerateQuiz) l
      \<and> preceded_by (Returned rid AnalyzeJobDescription) (Issued rid GenerateCodeChallenges) l
      \<and> preceded_by (Returned rid GenerateStudyPlan) (Ready rid) l
      \<and> preceded_by (Returned rid GenerateQuiz) (Ready rid) l
      \<and> preceded_by (Returned rid GenerateCodeChallenges) (Ready rid) l)"

definition traced :: "nat \<Rightarrow> System \<Rightarrow> bool" where
  "traced rid s =
     (one_run s \<and> list_all (returned_logged (log s)) (runs s) \<and> ordered (log s) rid)"

definition slots_kept :: "System \<Rightarrow> System \<Rightarrow> bool" where
  "slots_kept s s' =
     (trainingPlan (app s') = trainingPlan (app s) \<and> quiz (app s') = quiz (app s)
      \<and> challenges (app s') = challenges (app s) \<and> activeTab (app s') = activeTab (app s))"

section \<open>Concrete inputs\<close>

definition amazon_job :: JobAnalysis where
  "amazon_job =
     \<lparr>role = ''Backend Engineer'', company = ''Amazon'', type = PRODUCT,
      skills = [''Java'', ''AWS''], summary = ''Builds backend services.''\<rparr>"

text \<open>A parser for which every text is malformed JSON.\<close>

definition malformed :: "'a parser" where
  "malformed t = Inl SyntaxError"

text \<open>A reply to the analysis request that names another company and a fifth category.\<close>

definition other_company_text :: string where
  \<open>other_company_text =
     ''{"role":"Backend Engineer","company":"Initech","type":"Enterprise","skills":["Java"],"summary":"Builds services."}''\<close>

definition other_company_analysis :: JobAnalysis where
  "other_company_analysis =
     \<lparr>role = ''Backend Engineer'', company = ''Initech'', type = ''Enterprise'',
      skills = [''Java''], summary = ''Builds services.''\<rparr>"

definition other_company_parse :: "JobAnalysis parser" where
  "other_company_parse t =
     (if t = other_company_text then Inr other_company_analysis else Inl SyntaxError)"

text \<open>A reply to the analysis request that follows the prompt.\<close>

definition amazon_text :: string where
  \<open>amazon_text =
     ''{"role":"Backend Engineer","company":"Amazon","type":"Product-based","skills":["Java","AWS"],"summary":"Builds backend services."}''\<close>

definition amazon_parse :: "JobAnalysis parser" where
  "amazon_parse t = (if t = amazon_text then Inr amazon_job else Inl SyntaxError)"

text \<open>A quiz reply whose only entry has four options and \<^verbatim>\<open>correctAnswer\<close> 4.\<close>

definition out_of_range_text :: string where
  \<open>out_of_range_text =
     ''[{"id":1,"category":"Aptitude","question":"2 + 2 = ?","options":["1","2","3","4"],"correctAnswer":4,"explanation":"Arithmetic."}]''\<close>

definition out_of_range_question :: QuizQuestion where
  "out_of_range_question =
     \<lparr>id' = 1, category = ''Aptitude'', question = ''2 + 2 = ?'',
      options = [''1'', ''2'', ''3'', ''4''], correctAnswer = 4, explanation = ''Arithmetic.''\<rparr>"

definition out_of_range_parse :: "QuizQuestion list parser" where
  "out_of_range_parse t =
     (if t = out_of_range_text then Inr [out_of_range_question] else Inl SyntaxError)"

text \<open>A quiz reply whose only entry has a valid index.\<close>

definition in_range_text :: string where
  \<open>in_range_text =
     ''[{"id":1,"category":"Aptitude","question":"2 + 2 = ?","options":["1","2","3","4"],"correctAnswer":3,"explanation":"Arithmetic."}]''\<close>

definition in_range_question :: QuizQuestion where
  "in_range_question =
     \<lparr>id' = 1, category = ''Aptitude'', question = ''2 + 2 = ?'',
      options = [''1'', ''2'', ''3'', ''4''], correctAnswer = 3, explanation = ''Arithmetic.''\<rparr>"

definition in_range_parse :: "QuizQuestion list parser" where
  "in_range_parse t =
     (if t = in_range_text then Inr [in_range_question] else Inl SyntaxError)"

text \<open>A reply to the challenge request that is the empty JSON array.\<close>

definition empty_array_parse :: "CodeChallenge list parser" where
  "empty_array_parse t = (if t = ''[]'' then Inr [] else Inl SyntaxError)"

text \<open>
  Two contents of the intake form (the first with a company name of a space, a no-break
  space and an em space), a quiz of two questions and the quiz runner's first state.
\<close>

definition blank_company_form :: JobAnalyzerState where
  "blank_company_form =
     \<lparr>JobAnalyzerState.activeTab = TextTab, text' = utf16 ''Backend Engineer, Java, AWS'',
      companyName = [0x0020, 0x00A0, 0x2003], image = None, dragActive = False, error = []\<rparr>"

definition amazon_form :: JobAnalyzerState where
  "amazon_form =
     \<lparr>JobAnalyzerState.activeTab = TextTab, text' = utf16 ''Backend Engineer, Java, AWS'',
      companyName = utf16 ''Amazon'', image = None, dragActive = False, error = []\<rparr>"

definition aptitude_questions :: "QuizQuestion list" where
  "aptitude_questions = [in_range_question, out_of_range_question]"

definition fresh_quiz :: QuizState where
  "fresh_quiz =
     \<lparr>activeCategory = None, currentIdx = 0, selectedOption = None, showResult = False,
      score = 0\<rparr>"

section \<open>Properties of the generation client\<close>

text \<open>
  Claim C2. Whenever something fails inside \<^verbatim>\<open>analyzeJobDescription\<close> (the remote call
  rejects, the response has no text or an empty one, or \<^verbatim>\<open>JSON.parse\<close> throws), the
  function returns the fixed fallback analysis: role "Software Engineer", the supplied
  company name when there is a non-empty one and "Unknown Company" otherwise, type
  "General", skills ["Problem Solving"] and the summary that says the analysis failed.
  For every reply the returned promise resolves; it never rejects.
\<close>

theorem analyze_failure_fallback:
  "((\<exists>e. sent = Inl e) \<or> sent = Inr None \<or> sent = Inr (Some [])
      \<or> (\<exists>t e. sent = Inr (Some t) \<and> JSON_parse t = Inl e)
    \<longrightarrow> analyzeJobDescription JSON_parse sent jd imageBase64 userProvidedCompany =
          Inr \<lparr>role = ''Software Engineer'',
               company = (case userProvidedCompany of
                            None \<Rightarrow> ''Unknown Company''
                          | Some n \<Rightarrow> if n = [] then ''Unknown Company'' else n),
               type = ''General'',
               skills = [''Problem Solving''],
               summary = ''Could not analyze the JD properly. Please try again.''\<rparr>)
   \<and> (\<exists>a. analyzeJobDescription JSON_parse sent jd imageBase64 userProvidedCompany = Inr a)"
  by (auto simp: analyzeJobDescription_def analyze_try_def analyze_fallback_def or_default_def UNKNOWN_def
      split: sum.split option.split)

text \<open>
  The theorem at three failures: the service is offline, the reply is not JSON (and the
  company name is empty), and the response has no text (and no company name is
  passed).
\<close>

theorem analyze_failure_fallback_witness:
  "analyzeJobDescription malformed (Inl (ServiceError ''offline'')) ''Backend Engineer, Java, AWS'' None (Some ''Amazon'')
     = Inr \<lparr>role = ''Software Engineer'', company = ''Amazon'', type = ''General'',
            skills = [''Problem Solving''],
            summary = ''Could not analyze the JD properly. Please try again.''\<rparr>
   \<and> analyzeJobDescription malformed (Inr (Some ''not json'')) ''Backend Engineer, Java, AWS'' None (Some '''')
     = Inr \<lparr>role = ''Software Engineer'', company = ''Unknown Company'', type = ''General'',
            skills = [''Problem Solving''],
            summary = ''Could not analyze the JD properly. Please try again.''\<rparr>
   \<and> analyzeJobDescription amazon_parse (Inr None) [] (Some ''aGVsbG8='') None
     = Inr \<lparr>role = ''Software Engineer'', company = ''Unknown Company'', type = ''General'',
            skills = [''Problem Solving''],
            summary = ''Could not analyze the JD properly. Please try again.''\<rparr>"
  using analyze_failure_fallback [of "Inl (ServiceError ''offline'')" malformed
          "''Backend Engineer, Java, AWS''" None "Some ''Amazon''"]
        analyze_failure_fallback [of "Inr (Some ''not json'')" malformed
          "''Backend Engineer, Java, AWS''" None "Some ''''"]
        analyze_failure_fallback [of "Inr None" amazon_parse "[]" "Some ''aGVsbG8=''" None]
  by (simp add: malformed_def)

text \<open>
  Claim C3 as stated fails: a reply whose entry has four options and
  \<^verbatim>\<open>correctAnswer\<close> 4 is returned by \<^verbatim>\<open>generateQuiz\<close> as it is.
\<close>

theorem generateQuiz_out_of_range:
  "generateQuiz out_of_range_parse (Inr (Some out_of_range_text)) amazon_job
     = Inr [out_of_range_question]
   \<and> \<not> valid_index out_of_range_question"
  by (simp add: generateQuiz_def generateQuiz_try_def out_of_range_parse_def
      out_of_range_text_def valid_index_def out_of_range_question_def)

text \<open>
  Claim C3, amended. \<^verbatim>\<open>generateQuiz\<close> always resolves. What it returns is the empty
  list or the list parsed from a non-empty reply text, and a reply that parses is
  returned unchanged: no entry is looked at. So every returned entry has
  \<^verbatim>\<open>0 <= correctAnswer < options.length\<close> provided the entries of the parsed reply have.
\<close>

theorem generateQuiz_returns_reply_unchecked:
  "(\<exists>qs. generateQuiz JSON_parse sent job = Inr qs)
   \<and> (\<forall>qs. generateQuiz JSON_parse sent job = Inr qs \<longrightarrow>
          qs = [] \<or> (\<exists>t. t \<noteq> [] \<and> sent = Inr (Some t) \<and> JSON_parse t = Inr qs))
   \<and> (\<forall>t qs. sent = Inr (Some t) \<and> t \<noteq> [] \<and> JSON_parse t = Inr qs \<longrightarrow>
          generateQuiz JSON_parse sent job = Inr qs)
   \<and> ((\<forall>t qs. JSON_parse t = Inr qs \<longrightarrow> list_all valid_index qs) \<longrightarrow>
        (\<forall>qs. generateQuiz JSON_parse sent job = Inr qs \<longrightarrow> list_all valid_index qs))"
  by (auto simp: generateQuiz_def generateQuiz_try_def split: sum.splits option.splits if_splits)

text \<open>The theorem at a reply whose entry has a valid index.\<close>

theorem generateQuiz_returns_reply_unchecked_witness:
  "generateQuiz in_range_parse (Inr (Some in_range_text)) amazon_job = Inr [in_range_question]
   \<and> list_all valid_index [in_range_question]"
proof -
  have ok: "\<forall>t qs. in_range_parse t = Inr qs \<longrightarrow> list_all valid_index qs"
    by (simp add: in_range_parse_def valid_index_def in_range_question_def)
  have nonempty: "in_range_text \<noteq> []"
    by (simp add: in_range_text_def)
  have parsed: "in_range_parse in_range_text = Inr [in_range_question]"
    by (simp add: in_range_parse_def)
  from generateQuiz_returns_reply_unchecked
         [of in_range_parse "Inr (Some in_range_text)" amazon_job] ok nonempty parsed
  show ?thesis by blast
qed

text \<open>
  Claim C4 as stated fails: the reply \<^verbatim>\<open>[]\<close> parses, and \<^verbatim>\<open>generateCodeChallenges\<close>
  returns the empty list, which is neither a list of three entries nor the fallback.
\<close>

theorem generateCodeChallenges_empty_reply:
  "generateCodeChallenges empty_array_parse (Inr (Some ''[]'')) amazon_job = Inr []
   \<and> length ([] :: CodeChallenge list) \<noteq> 3
   \<and> [] \<noteq> two_sum_fallback amazon_job"
  by (simp add: generateCodeChallenges_def generateCodeChallenges_try_def empty_array_parse_def
      two_sum_fallback_def)

text \<open>
  Claim C4, amended. \<^verbatim>\<open>generateCodeChallenges\<close> always resolves. What it returns is
  the "Two Sum" fallback or the list parsed from a non-empty reply text, whatever its
  length, and a reply that parses is returned unchanged. Whenever the call fails (the
  remote call rejects, the response has no text, or \<^verbatim>\<open>JSON.parse\<close> throws) the result
  is the fallback: one entry, titled "Two Sum", with starter code for python,
  javascript and java.
\<close>

theorem generateCodeChallenges_reply_or_fallback:
  "(\<exists>cs. generateCodeChallenges JSON_parse sent job = Inr cs)
   \<and> (\<forall>cs. generateCodeChallenges JSON_parse sent job = Inr cs \<longrightarrow>
          cs = two_sum_fallback job
          \<or> (\<exists>t. t \<noteq> [] \<and> sent = Inr (Some t) \<and> JSON_parse t = Inr cs))
   \<and> (\<forall>t cs. sent = Inr (Some t) \<and> t \<noteq> [] \<and> JSON_parse t = Inr cs \<longrightarrow>
          generateCodeChallenges JSON_parse sent job = Inr cs)
   \<and> ((\<exists>e. sent = Inl e) \<or> sent = Inr None \<or> sent = Inr (Some [])
        \<or> (\<exists>t e. sent = Inr (Some t) \<and> JSON_parse t = Inl e) \<longrightarrow>
        generateCodeChallenges JSON_parse sent job = Inr (two_sum_fallback job))
   \<and> (\<exists>c. two_sum_fallback job = [c] \<and> title c = ''Two Sum'' \<and> difficulty c = ''Easy''
          \<and> python (starterCode c) \<noteq> [] \<and> javascript (starterCode c) \<noteq> []
          \<and> java (starterCode c) \<noteq> [])"
proof -
  have fallback: "\<exists>c. two_sum_fallback job = [c] \<and> title c = ''Two Sum'' \<and> difficulty c = ''Easy''
          \<and> python (starterCode c) \<noteq> [] \<and> javascript (starterCode c) \<noteq> []
          \<and> java (starterCode c) \<noteq> []"
    by (simp add: two_sum_fallback_def)
  have rest: "(\<exists>cs. generateCodeChallenges JSON_parse sent job = Inr cs)
   \<and> (\<forall>cs. generateCodeChallenges JSON_parse sent job = Inr cs \<longrightarrow>
          cs = two_sum_fallback job
          \<or> (\<exists>t. t \<noteq> [] \<and> sent = Inr (Some t) \<and> JSON_parse t = Inr cs))
   \<and> (\<forall>t cs. sent = Inr (Some t) \<and> t \<noteq> [] \<and> JSON_parse t = Inr cs \<longrightarrow>
          generateCodeChallenges JSON_parse sent job = Inr cs)
   \<and> ((\<exists>e. sent = Inl e) \<or> sent = Inr None \<or> sent = Inr (Some [])
        \<or> (\<exists>t e. sent = Inr (Some t) \<and> JSON_parse t = Inl e) \<longrightarrow>
        generateCodeChallenges JSON_parse sent job = Inr (two_sum_fallback job))"
    by (auto simp: generateCodeChallenges_def generateCodeChallenges_try_def
        split: sum.splits option.splits if_splits)
  from rest fallback show ?thesis by blast
qed

text \<open>The theorem when the service is offline and when the reply is not JSON.\<close>

theorem generateCodeChallenges_reply_or_fallback_witness:
  "generateCodeChallenges malformed (Inl (ServiceError ''offline'')) amazon_job
     = Inr (two_sum_fallback amazon_job)
   \<and> generateCodeChallenges malformed (Inr (Some ''<html>'')) amazon_job
     = Inr (two_sum_fallback amazon_job)"
proof -
  have bad: "malformed ''<html>'' = Inl SyntaxError"
    by (simp add: malformed_def)
  from generateCodeChallenges_reply_or_fallback
         [of malformed "Inl (ServiceError ''offline'')" amazon_job]
  have offline: "generateCodeChallenges malformed (Inl (ServiceError ''offline'')) amazon_job
     = Inr (two_sum_fallback amazon_job)"
    by blast
  from generateCodeChallenges_reply_or_fallback
         [of malformed "Inr (Some ''<html>'')" amazon_job] bad
  have html: "generateCodeChallenges malformed (Inr (Some ''<html>'')) amazon_job
     = Inr (two_sum_fallback amazon_job)"
    by blast
  from offline html show ?thesis by simp
qed

text \<open>
  Claim C5 as stated fails: with the company name "Amazon" supplied, a reply that names
  the company "Initech" and the type "Enterprise" is returned as it is.
\<close>

theorem analyze_other_company:
  "analyzeJobDescription other_company_parse (Inr (Some other_company_text))
       ''Backend Engineer, Java, AWS'' None (Some ''Amazon'')
     = Inr other_company_analysis
   \<and> company other_company_analysis \<noteq> ''Amazon''
   \<and> type other_company_analysis \<notin> set CompanyType"
  by (simp add: analyzeJobDescription_def analyze_try_def other_company_parse_def
      other_company_text_def other_company_analysis_def CompanyType_def PRODUCT_def SERVICE_def
      STARTUP_def UNKNOWN_def)

text \<open>
  Claim C5, amended. For a non-empty company name, \<^verbatim>\<open>analyzeJobDescription\<close> always
  resolves, with the fallback analysis (whose company is the supplied name and whose
  type is "General", one of the four categories) or with the analysis parsed from a
  non-empty reply text, and a reply that parses is returned unchanged. So the company
  is the supplied name and the type one of the four categories provided the parsed
  reply has them so.
\<close>

theorem analyze_company_and_type:
  "name \<noteq> [] \<Longrightarrow>
   (\<exists>a. analyzeJobDescription JSON_parse sent jd imageBase64 (Some name) = Inr a)
   \<and> (\<forall>a. analyzeJobDescription JSON_parse sent jd imageBase64 (Some name) = Inr a \<longrightarrow>
          (a = analyze_fallback (Some name) \<and> company a = name \<and> type a = ''General''
             \<and> type a \<in> set CompanyType)
          \<or> (\<exists>t. t \<noteq> [] \<and> sent = Inr (Some t) \<and> JSON_parse t = Inr a))
   \<and> (\<forall>t a. sent = Inr (Some t) \<and> t \<noteq> [] \<and> JSON_parse t = Inr a \<longrightarrow>
          analyzeJobDescription JSON_parse sent jd imageBase64 (Some name) = Inr a)
   \<and> ((\<forall>t a. JSON_parse t = Inr a \<longrightarrow> company a = name \<and> type a \<in> set CompanyType) \<longrightarrow>
        (\<forall>a. analyzeJobDescription JSON_parse sent jd imageBase64 (Some name) = Inr a \<longrightarrow>
           company a = name \<and> type a \<in> set CompanyType))"
  by (auto simp: analyzeJobDescription_def analyze_try_def analyze_fallback_def or_default_def
      CompanyType_def UNKNOWN_def split: sum.splits option.splits if_splits)

text \<open>The theorem at a reply that follows the prompt.\<close>

theorem analyze_company_and_type_witness:
  "analyzeJobDescription amazon_parse (Inr (Some amazon_text)) ''Backend Engineer, Java, AWS''
       None (Some ''Amazon'') = Inr amazon_job
   \<and> company amazon_job = ''Amazon'' \<and> type amazon_job \<in> set CompanyType"
proof -
  have name: "''Amazon'' \<noteq> []"
    by simp
  have ok: "\<forall>t a. amazon_parse t = Inr a \<longrightarrow> company a = ''Amazon'' \<and> type a \<in> set CompanyType"
    by (simp add: amazon_parse_def amazon_job_def CompanyType_def)
  have nonempty: "amazon_text \<noteq> []"
    by (simp add: amazon_text_def)
  have parsed: "amazon_parse amazon_text = Inr amazon_job"
    by (simp add: amazon_parse_def)
  from analyze_company_and_type
         [OF name, of amazon_parse "Inr (Some amazon_text)" "''Backend Engineer, Java, AWS''" None]
       ok nonempty parsed
  show ?thesis by blast
qed

section \<open>Properties of the intake form, the refresh actions and the quiz runner\<close>

lemma handleSubmit_rejects:
  "trim (companyName f) = []
     \<or> (JobAnalyzerState.activeTab f = TextTab \<and> trim (text' f) = [])
     \<or> (JobAnalyzerState.activeTab f = ImageTab \<and> \<not> truthy (image f))
   \<Longrightarrow> snd (handleSubmit f) = None \<and> error (fst (handleSubmit f)) \<noteq> []"
  by (auto simp: handleSubmit_def)

text \<open>
  Claim C7. When the company name is empty after trimming, or the text is empty (after
  trimming, as the code has it) in text mode, or no image is loaded (\<^verbatim>\<open>!image\<close>) in image
  mode, \<^verbatim>\<open>handleSubmit\<close> does not reach
  \<^verbatim>\<open>onAnalyze\<close> and sets a non-empty error message, which the form shows. A click on the
  button then changes the form's error slot only: the state slots of the application,
  the suspended invocations and the log of calls are as before, and an Idle pipeline
  stays Idle.
\<close>

theorem invalid_submission_rejected:
  assumes "trim (companyName (form s)) = []
     \<or> (JobAnalyzerState.activeTab (form s) = TextTab \<and> trim (text' (form s)) = [])
     \<or> (JobAnalyzerState.activeTab (form s) = ImageTab \<and> \<not> truthy (image (form s)))"
  shows "snd (handleSubmit (form s)) = None
    \<and> error (fst (handleSubmit (form s))) \<noteq> []
    \<and> (activeTab (app s) = ANALYSIS \<and> \<not> loading (app s) \<longrightarrow>
         step ClickGenerate s = s\<lparr>form := fst (handleSubmit (form s))\<rparr>)
    \<and> app (step ClickGenerate s) = app s
    \<and> runs (step ClickGenerate s) = runs s
    \<and> log (step ClickGenerate s) = log s
    \<and> (Idle s \<longrightarrow> Idle (step ClickGenerate s))"
proof -
  from assms have rej: "snd (handleSubmit (form s)) = None"
    and err: "error (fst (handleSubmit (form s))) \<noteq> []"
    using handleSubmit_rejects by blast+
  from rej obtain f where f: "handleSubmit (form s) = (f, None)"
    by (cases "handleSubmit (form s)") auto
  have click: "click_generate s =
      (if activeTab (app s) = ANALYSIS \<and> \<not> loading (app s) then s\<lparr>form := f\<rparr> else s)"
    by (simp add: click_generate_def f)
  from rej err click f show ?thesis
    by (simp add: Idle_def)
qed

text \<open>
  The theorem at the first state with a company name of a space, a no-break space and
  an em space.
\<close>

theorem invalid_submission_rejected_witness:
  "snd (handleSubmit blank_company_form) = None
   \<and> error (form (step ClickGenerate (initial\<lparr>form := blank_company_form\<rparr>)))
       = ''Please enter a target company name.''
   \<and> app (step ClickGenerate (initial\<lparr>form := blank_company_form\<rparr>)) = app initial
   \<and> log (step ClickGenerate (initial\<lparr>form := blank_company_form\<rparr>)) = []
   \<and> Idle (step ClickGenerate (initial\<lparr>form := blank_company_form\<rparr>))"
proof -
  let ?s = "initial\<lparr>form := blank_company_form\<rparr>"
  have blank: "trim (companyName (form ?s)) = []"
    by (simp add: blank_company_form_def trim_def whitespace_def)
  have idle: "Idle ?s"
    by (simp add: Idle_def initial_def)
  have enabled: "activeTab (app ?s) = ANALYSIS \<and> \<not> loading (app ?s)"
    by (simp add: initial_def)
  have shown: "error (fst (handleSubmit (form ?s))) = ''Please enter a target company name.''"
    by (simp add: handleSubmit_def blank_company_form_def trim_def whitespace_def)
  have empty: "log ?s = []"
    by (simp add: initial_def)
  from blank have pre: "trim (companyName (form ?s)) = []
     \<or> (JobAnalyzerState.activeTab (form ?s) = TextTab \<and> trim (text' (form ?s)) = [])
     \<or> (JobAnalyzerState.activeTab (form ?s) = ImageTab \<and> \<not> truthy (image (form ?s)))"
    by blast
  note r = invalid_submission_rejected [OF pre]
  from r have 1: "snd (handleSubmit (form ?s)) = None" by blast
  from r enabled have "step ClickGenerate ?s = ?s\<lparr>form := fst (handleSubmit (form ?s))\<rparr>"
    by blast
  then have "form (step ClickGenerate ?s) = fst (handleSubmit (form ?s))"
    by simp
  with shown have 2: "error (form (step ClickGenerate ?s)) = ''Please enter a target company name.''"
    by simp
  from r have 3: "app (step ClickGenerate ?s) = app ?s" by blast
  from r empty have 4: "log (step ClickGenerate ?s) = []" by simp
  from r idle have 5: "Idle (step ClickGenerate ?s)" by blast
  from 1 2 3 4 5 show ?thesis by simp
qed

text \<open>
  Claim C9. When no analysis is stored, \<^verbatim>\<open>refreshQuiz\<close> and \<^verbatim>\<open>refreshChallenges\<close> return
  at once: the whole state, the log of calls included, is unchanged.
\<close>

theorem refresh_without_analysis:
  "jobData (app s) = None \<Longrightarrow>
   refreshQuiz s = s \<and> refreshChallenges s = s
   \<and> step ClickRefreshQuiz s = s \<and> step ClickRefreshChallenges s = s"
  by (simp add: refreshQuiz_def refreshChallenges_def)

text \<open>The theorem at the first state.\<close>

theorem refresh_without_analysis_witness:
  "refreshQuiz initial = initial \<and> refreshChallenges initial = initial
   \<and> log (step ClickRefreshQuiz initial) = []
   \<and> quiz (app (step ClickRefreshQuiz initial)) = []
   \<and> challenges (app (step ClickRefreshChallenges initial)) = []"
proof -
  have none: "jobData (app initial) = None"
    by (simp add: initial_def)
  from refresh_without_analysis [OF none] show ?thesis
    by (simp add: initial_def)
qed

lemma selection_taken:
  assumes "x \<in> set (selection questions e s)"
  shows "fst x = currentIdx s \<and> \<not> showResult s
    \<and> next_open (quiz_step questions e s) = Suc (currentIdx s)"
proof (cases e)
  case (Select idx)
  with assms have fresh: "\<not> showResult s" and x: "x = (currentIdx s, currentQ questions s, idx)"
    by (simp_all split: if_splits)
  from fresh have "next_open (fst (handleSelect questions idx s)) = Suc (currentIdx s)"
    by (cases "currentQ questions s") (simp_all add: handleSelect_def next_open_def Let_def)
  with Select fresh x show ?thesis by simp
next
  case Next
  with assms show ?thesis by simp
next
  case BackToTopics
  with assms show ?thesis by simp
qed

lemma next_open_step: "next_open s \<le> next_open (quiz_step questions e s)"
proof (cases e)
  case (Select idx)
  then show ?thesis
    by (cases "currentQ questions s") (simp_all add: handleSelect_def next_open_def Let_def)
next
  case Next
  then show ?thesis by (simp add: handleNext_def next_open_def)
next
  case BackToTopics
  then show ?thesis by (simp add: handleBackToTopics_def next_open_def)
qed

lemma selections_from: "x \<in> set (selections questions es s) \<Longrightarrow> next_open s \<le> fst x"
proof (induction es arbitrary: s)
  case Nil
  then show ?case by simp
next
  case (Cons e es)
  from Cons.prems consider (now) "x \<in> set (selection questions e s)"
    | (later) "x \<in> set (selections questions es (quiz_step questions e s))"
    by auto
  then show ?case
  proof cases
    case now
    from selection_taken [OF now] show ?thesis by (simp add: next_open_def)
  next
    case later
    from Cons.IH [OF later] next_open_step [of s questions e] show ?thesis by simp
  qed
qed

lemma selections_increasing: "sorted_wrt (<) (map fst (selections questions es s))"
proof (induction es arbitrary: s)
  case Nil
  show ?case by simp
next
  case (Cons e es)
  have after: "fst x < fst y"
    if "x \<in> set (selection questions e s)"
      and "y \<in> set (selections questions es (quiz_step questions e s))" for x y
  proof -
    from selection_taken [OF that(1)] selections_from [OF that(2)] show ?thesis by simp
  qed
  have one: "sorted_wrt (<) (map fst (selection questions e s))"
    by (cases e) simp_all
  from one Cons.IH [of "quiz_step questions e s"] after show ?case
    by (auto simp: sorted_wrt_append)
qed

lemma score_step:
  "score (quiz_step questions e s) = score s + length (filter scored (selection questions e s))"
proof (cases e)
  case (Select idx)
  then show ?thesis
    by (cases "currentQ questions s") (simp_all add: handleSelect_def Let_def)
next
  case Next
  then show ?thesis by (simp add: handleNext_def)
next
  case BackToTopics
  then show ?thesis by (simp add: handleBackToTopics_def)
qed

lemma score_run:
  "score (quiz_run questions es s) = score s + length (filter scored (selections questions es s))"
  by (induction es arbitrary: s) (simp_all add: score_step)

lemma score_next_open_step:
  assumes "score s \<le> next_open s"
  shows "score (quiz_step questions e s) \<le> next_open (quiz_step questions e s)"
proof (cases "selection questions e s")
  case Nil
  with score_step [of questions e s] assms next_open_step [of s questions e]
  show ?thesis by simp
next
  case (Cons x xs)
  then have "x \<in> set (selection questions e s)" by simp
  from selection_taken [OF this]
  have fresh: "\<not> showResult s"
    and opened: "next_open (quiz_step questions e s) = Suc (currentIdx s)"
    by simp_all
  have "length (selection questions e s) \<le> 1" by (cases e) simp_all
  with length_filter_le [of scored "selection questions e s"]
  have "length (filter scored (selection questions e s)) \<le> 1"
    by (rule le_trans)
  with score_step [of questions e s] assms fresh opened show ?thesis
    by (simp add: next_open_def)
qed

lemma score_next_open_run:
  "score s \<le> next_open s \<Longrightarrow> score (quiz_run questions es s) \<le> next_open (quiz_run questions es s)"
  by (induction es arbitrary: s) (simp_all add: score_next_open_step)

lemma scored_of_question: "scored x \<Longrightarrow> of_question x"
  by (cases x rule: scored.cases) simp_all

lemma scored_among_answered:
  "length (filter scored xs) \<le> length (filter of_question xs)"
  by (induction xs) (auto dest: scored_of_question)

text \<open>
  Claim C10. Once a result is shown, \<^verbatim>\<open>handleSelect\<close> changes nothing. The first
  selection for a question stores the option, shows the result, and adds one to the
  score exactly when the option is the question's \<^verbatim>\<open>correctAnswer\<close>. In a run of a
  category the selections that are taken are for questions of strictly increasing
  index, so no question takes a second one; the score is the number of these
  selections that are of the correct answer, which is one per question at most. So the
  score is at most the number of questions answered (the questions a selection was
  taken for), and at most the number of questions reached.
\<close>

theorem score_once_per_question:
  "(showResult s \<longrightarrow> handleSelect questions idx s = (s, None))
   \<and> (\<not> showResult s \<and> currentQ questions s = Some q \<longrightarrow>
        handleSelect questions idx s =
          (s\<lparr>selectedOption := Some idx, showResult := True,
             score := (if idx = correctAnswer q then score s + 1 else score s)\<rparr>, None))
   \<and> sorted_wrt (<) (map fst (selections questions es (handleCategorySelect cat s)))
   \<and> score (quiz_run questions es (handleCategorySelect cat s))
        = length (filter scored (selections questions es (handleCategorySelect cat s)))
   \<and> score (quiz_run questions es (handleCategorySelect cat s))
        \<le> card (fst ` set (filter of_question
                               (selections questions es (handleCategorySelect cat s))))
   \<and> score (quiz_run questions es (handleCategorySelect cat s))
        \<le> Suc (currentIdx (quiz_run questions es (handleCategorySelect cat s)))"
proof -
  let ?s0 = "handleCategorySelect cat s"
  let ?sel = "selections questions es ?s0"
  have ignored: "showResult s \<longrightarrow> handleSelect questions idx s = (s, None)"
    by (simp add: handleSelect_def)
  have first: "\<not> showResult s \<and> currentQ questions s = Some q \<longrightarrow>
        handleSelect questions idx s =
          (s\<lparr>selectedOption := Some idx, showResult := True,
             score := (if idx = correctAnswer q then score s + 1 else score s)\<rparr>, None)"
    by (simp add: handleSelect_def Let_def)
  have increasing: "sorted_wrt (<) (map fst ?sel)"
    by (rule selections_increasing)
  have zero: "score ?s0 = 0"
    by (simp add: handleCategorySelect_def)
  with score_run [of questions es ?s0]
  have counted: "score (quiz_run questions es ?s0) = length (filter scored ?sel)"
    by simp
  from increasing have "distinct (map fst ?sel)"
    by (simp add: strict_sorted_iff)
  then have "distinct (map fst (filter of_question ?sel))"
    by (rule distinct_map_filter)
  then have "card (set (map fst (filter of_question ?sel)))
      = length (map fst (filter of_question ?sel))"
    by (rule distinct_card)
  then have "card (fst ` set (filter of_question ?sel)) = length (filter of_question ?sel)"
    by simp
  with counted scored_among_answered [of ?sel]
  have answered: "score (quiz_run questions es ?s0)
      \<le> card (fst ` set (filter of_question ?sel))"
    by simp
  have "score ?s0 \<le> next_open ?s0"
    using zero by simp
  then have "score (quiz_run questions es ?s0) \<le> next_open (quiz_run questions es ?s0)"
    by (rule score_next_open_run)
  then have reached: "score (quiz_run questions es ?s0)
      \<le> Suc (currentIdx (quiz_run questions es ?s0))"
    by (simp add: next_open_def split: if_splits)
  from ignored first increasing counted answered reached show ?thesis
    by blast
qed

text \<open>
  The theorem at a run of two questions: the right option, two more clicks on the same
  question, the next question, a wrong option and one more click; and at the first
  two of these selections.
\<close>

theorem score_once_per_question_witness:
  "handleSelect aptitude_questions 3 (handleCategorySelect ''Aptitude'' fresh_quiz)
     = (\<lparr>activeCategory = Some ''Aptitude'', currentIdx = 0, selectedOption = Some 3,
         showResult = True, score = 1\<rparr>, None)
   \<and> handleSelect aptitude_questions 0
         \<lparr>activeCategory = Some ''Aptitude'', currentIdx = 0, selectedOption = Some 3,
          showResult = True, score = 1\<rparr>
     = (\<lparr>activeCategory = Some ''Aptitude'', currentIdx = 0, selectedOption = Some 3,
         showResult = True, score = 1\<rparr>, None)
   \<and> selections aptitude_questions [Select 3, Select 0, Select 3, Next, Select 2, Select 4]
        (handleCategorySelect ''Aptitude'' fresh_quiz)
     = [(0, Some in_range_question, 3), (1, Some out_of_range_question, 2)]
   \<and> score (quiz_run aptitude_questions [Select 3, Select 0, Select 3, Next, Select 2, Select 4]
            (handleCategorySelect ''Aptitude'' fresh_quiz)) = 1"
proof -
  let ?s0 = "handleCategorySelect ''Aptitude'' fresh_quiz"
  let ?s1 = "\<lparr>activeCategory = Some ''Aptitude'', currentIdx = 0, selectedOption = Some 3,
              showResult = True, score = 1\<rparr>"
  let ?es = "[Select 3, Select 0, Select 3, Next, Select 2, Select 4]"
  have s0: "?s0 = \<lparr>activeCategory = Some ''Aptitude'', currentIdx = 0, selectedOption = None,
                    showResult = False, score = 0\<rparr>"
    by (simp add: handleCategorySelect_def fresh_quiz_def)
  have fresh: "\<not> showResult ?s0 \<and> currentQ aptitude_questions ?s0 = Some in_range_question"
    by (simp add: s0 currentQ_def activeQuestions_def at_index_def aptitude_questions_def
        in_range_question_def out_of_range_question_def)
  have right: "correctAnswer in_range_question = 3"
    by (simp add: in_range_question_def)
  from score_once_per_question
         [where s = ?s0 and questions = aptitude_questions and idx = 3
            and q = in_range_question] fresh
  have "handleSelect aptitude_questions 3 ?s0 =
          (?s0\<lparr>selectedOption := Some 3, showResult := True,
             score := (if 3 = correctAnswer in_range_question then score ?s0 + 1 else score ?s0)\<rparr>,
           None)"
    by blast
  with right have first: "handleSelect aptitude_questions 3 ?s0 = (?s1, None)"
    by (simp add: s0)
  have shown: "showResult ?s1"
    by simp
  from score_once_per_question [where s = ?s1 and questions = aptitude_questions and idx = 0] shown
  have again: "handleSelect aptitude_questions 0 ?s1 = (?s1, None)"
    by blast
  have taken: "selections aptitude_questions ?es ?s0
      = [(0, Some in_range_question, 3), (1, Some out_of_range_question, 2)]"
    by (simp add: aptitude_questions_def in_range_question_def out_of_range_question_def
        handleCategorySelect_def fresh_quiz_def handleSelect_def handleNext_def currentQ_def
        activeQuestions_def at_index_def Let_def)
  have wrong: "correctAnswer out_of_range_question = 4"
    by (simp add: out_of_range_question_def)
  from score_once_per_question
         [where s = fresh_quiz and questions = aptitude_questions and cat = "''Aptitude''"
            and es = ?es]
  have "score (quiz_run aptitude_questions ?es ?s0)
      = length (filter scored (selections aptitude_questions ?es ?s0))"
    by blast
  with taken right wrong have total: "score (quiz_run aptitude_questions ?es ?s0) = 1"
    by simp
  from first again taken total show ?thesis
    by simp
qed

section \<open>Properties of the orchestration pipeline\<close>

lemmas state_ops =
  setActiveTab_def setLoading_def setJobData_def setTrainingPlan_def setQuiz_def
  setChallenges_def alert_def observe_def suspend_def finish_def

lemma exec_append: "exec (es @ es') s = exec es' (exec es s)"
  by (induction es arbitrary: s) simp_all

lemma only_run: "length rs \<le> 1 \<Longrightarrow> map_of rs rid = Some w \<Longrightarrow> rs = [(rid, w)]"
  by (cases rs) (auto split: if_splits)

lemma one_run_only: "one_run s \<Longrightarrow> map_of (runs s) rid = Some w \<Longrightarrow> runs s = [(rid, w)]"
  by (simp add: one_run_def only_run)

lemma caught:
  "handleAnalyze_catch rid (observe x s) =
     s\<lparr>app := (app s)\<lparr>loading := False\<rparr>,
       runs := filter (\<lambda>(r, w). r \<noteq> rid) (runs s),
       alerts := ''Something went wrong during analysis. Please try again.'' # alerts s,
       log := x # log s\<rparr>"
  by (simp add: handleAnalyze_catch_def state_ops)

text \<open>What a click on the button does.\<close>

lemma click_generate_shape:
  obtains (refused) "click_generate s = s"
  | (invalid) f where "runs s = [] \<or> \<not> one_run s" and "click_generate s = s\<lparr>form := f\<rparr>"
  | (started) f where "runs s = [] \<or> \<not> one_run s"
      and "click_generate s =
             s\<lparr>app := (app s)\<lparr>loading := True\<rparr>, form := f,
               runs := runs s @ [(nextRun s, AwaitAnalyze)], nextRun := Suc (nextRun s),
               log := Issued (nextRun s) AnalyzeJobDescription # log s\<rparr>"
proof (cases "activeTab (app s) = ANALYSIS \<and> \<not> loading (app s)")
  case False
  then have "click_generate s = s" by (auto simp: click_generate_def)
  then show ?thesis by (rule refused)
next
  case True
  then have idle: "runs s = [] \<or> \<not> one_run s" by (auto simp: one_run_def)
  obtain f call where sub: "handleSubmit (form s) = (f, call)"
    by (cases "handleSubmit (form s)")
  show ?thesis
  proof (cases call)
    case None
    with True sub have "click_generate s = s\<lparr>form := f\<rparr>"
      by (simp add: click_generate_def)
    with idle show ?thesis by (rule invalid)
  next
    case (Some args)
    obtain jd img c where "args = (jd, img, c)" by (cases args)
    with Some True sub
    have "click_generate s =
             s\<lparr>app := (app s)\<lparr>loading := True\<rparr>, form := f,
               runs := runs s @ [(nextRun s, AwaitAnalyze)], nextRun := Suc (nextRun s),
               log := Issued (nextRun s) AnalyzeJobDescription # log s\<rparr>"
      by (simp add: click_generate_def handleAnalyze_def state_ops Let_def)
    with idle show ?thesis by (rule started)
  qed
qed

text \<open>What the settling of each of the four promises does to a state with one run.\<close>

lemma handleAnalyze_analyzed_shape:
  assumes "one_run s"
  obtains (ignored) "handleAnalyze_analyzed rid outcome s = s"
  | (rejected) "runs s = [(rid, AwaitAnalyze)]"
      and "handleAnalyze_analyzed rid outcome s =
             handleAnalyze_catch rid (observe (Threw rid AnalyzeJobDescription) s)"
  | (resolved) analysis where "runs s = [(rid, AwaitAnalyze)]"
      and "handleAnalyze_analyzed rid outcome s =
             s\<lparr>app := (app s)\<lparr>jobData := Some analysis\<rparr>,
               runs := [(rid, AwaitAll analysis None None None)],
               log := Issued rid GenerateCodeChallenges # Issued rid GenerateQuiz
                        # Issued rid GenerateStudyPlan # Returned rid AnalyzeJobDescription
                        # log s\<rparr>"
proof (cases "map_of (runs s) rid")
  case None
  then have "handleAnalyze_analyzed rid outcome s = s"
    by (simp add: handleAnalyze_analyzed_def)
  then show ?thesis by (rule ignored)
next
  case (Some w)
  with assms have only: "runs s = [(rid, w)]" by (rule one_run_only)
  show ?thesis
  proof (cases w)
    case (AwaitAll a p q c)
    with Some have "handleAnalyze_analyzed rid outcome s = s"
      by (simp add: handleAnalyze_analyzed_def)
    then show ?thesis by (rule ignored)
  next
    case AwaitAnalyze
    show ?thesis
    proof (cases outcome)
      case (Inl e)
      with Some AwaitAnalyze
      have "handleAnalyze_analyzed rid outcome s =
             handleAnalyze_catch rid (observe (Threw rid AnalyzeJobDescription) s)"
        by (simp add: handleAnalyze_analyzed_def)
      with only AwaitAnalyze show ?thesis by (intro rejected) simp_all
    next
      case (Inr analysis)
      with Some AwaitAnalyze only
      have "handleAnalyze_analyzed rid outcome s =
             s\<lparr>app := (app s)\<lparr>jobData := Some analysis\<rparr>,
               runs := [(rid, AwaitAll analysis None None None)],
               log := Issued rid GenerateCodeChallenges # Issued rid GenerateQuiz
                        # Issued rid GenerateStudyPlan # Returned rid AnalyzeJobDescription
                        # log s\<rparr>"
        by (simp add: handleAnalyze_analyzed_def state_ops)
      with only AwaitAnalyze show ?thesis by (intro resolved) simp_all
    qed
  qed
qed

lemma studyPlan_settled_shape:
  assumes "one_run s"
  obtains (ignored) "studyPlan_settled rid outcome s = s"
  | (rejected) w where "runs s = [(rid, w)]"
      and "studyPlan_settled rid outcome s =
             handleAnalyze_catch rid (observe (Threw rid GenerateStudyPlan) s)"
  | (resolved) a q c v where "runs s = [(rid, AwaitAll a None q c)]"
      and "studyPlan_settled rid outcome s =
             promise_all rid
               (s\<lparr>log := Returned rid GenerateStudyPlan # log s,
                  runs := [(rid, AwaitAll a (Some v) q c)]\<rparr>)"
proof (cases "map_of (runs s) rid")
  case None
  then have "studyPlan_settled rid outcome s = s"
    by (simp add: studyPlan_settled_def)
  then show ?thesis by (rule ignored)
next
  case (Some w)
  with assms have only: "runs s = [(rid, w)]" by (rule one_run_only)
  show ?thesis
  proof (cases w)
    case AwaitAnalyze
    with Some have "studyPlan_settled rid outcome s = s"
      by (simp add: studyPlan_settled_def)
    then show ?thesis by (rule ignored)
  next
    case (AwaitAll a p q c)
    show ?thesis
    proof (cases p)
      case (Some v)
      with AwaitAll \<open>map_of (runs s) rid = Some w\<close>
      have "studyPlan_settled rid outcome s = s"
        by (simp add: studyPlan_settled_def)
      then show ?thesis by (rule ignored)
    next
      case None
      show ?thesis
      proof (cases outcome)
        case (Inl e)
        with None AwaitAll \<open>map_of (runs s) rid = Some w\<close>
        have "studyPlan_settled rid outcome s =
             handleAnalyze_catch rid (observe (Threw rid GenerateStudyPlan) s)"
          by (simp add: studyPlan_settled_def)
        with only show ?thesis by (rule rejected)
      next
        case (Inr v)
        with None AwaitAll only \<open>map_of (runs s) rid = Some w\<close>
        have "studyPlan_settled rid outcome s =
             promise_all rid
               (s\<lparr>log := Returned rid GenerateStudyPlan # log s,
                  runs := [(rid, AwaitAll a (Some v) q c)]\<rparr>)"
          by (simp add: studyPlan_settled_def state_ops)
        with only AwaitAll None show ?thesis by (intro resolved) simp_all
      qed
    qed
  qed
qed

lemma quiz_settled_shape:
  assumes "one_run s"
  obtains (ignored) "quiz_settled rid outcome s = s"
  | (rejected) w where "runs s = [(rid, w)]"
      and "quiz_settled rid outcome s =
             handleAnalyze_catch rid (observe (Threw rid GenerateQuiz) s)"
  | (resolved) a p c v where "runs s = [(rid, AwaitAll a p None c)]"
      and "quiz_settled rid outcome s =
             promise_all rid
               (s\<lparr>log := Returned rid GenerateQuiz # log s,
                  runs := [(rid, AwaitAll a p (Some v) c)]\<rparr>)"
proof (cases "map_of (runs s) rid")
  case None
  then have "quiz_settled rid outcome s = s"
    by (simp add: quiz_settled_def)
  then show ?thesis by (rule ignored)
next
  case (Some w)
  with assms have only: "runs s = [(rid, w)]" by (rule one_run_only)
  show ?thesis
  proof (cases w)
    case AwaitAnalyze
    with Some have "quiz_settled rid outcome s = s"
      by (simp add: quiz_settled_def)
    then show ?thesis by (rule ignored)
  next
    case (AwaitAll a p q c)
    show ?thesis
    proof (cases q)
      case (Some v)
      with AwaitAll \<open>map_of (runs s) rid = Some w\<close>
      have "quiz_settled rid outcome s = s"
        by (simp add: quiz_settled_def)
      then show ?thesis by (rule ignored)
    next
      case None
      show ?thesis
      proof (cases outcome)
        case (Inl e)
        with None AwaitAll \<open>map_of (runs s) rid = Some w\<close>
        have "quiz_settled rid outcome s =
             handleAnalyze_catch rid (observe (Threw rid GenerateQuiz) s)"
          by (simp add: quiz_settled_def)
        with only show ?thesis by (rule rejected)
      next
        case (Inr v)
        with None AwaitAll only \<open>map_of (runs s) rid = Some w\<close>
        have "quiz_settled rid outcome s =
             promise_all rid
               (s\<lparr>log := Returned rid GenerateQuiz # log s,
                  runs := [(rid, AwaitAll a p (Some v) c)]\<rparr>)"
          by (simp add: quiz_settled_def state_ops)
        with only AwaitAll None show ?thesis by (intro resolved) simp_all
      qed
    qed
  qed
qed

lemma challenges_settled_shape:
  assumes "one_run s"
  obtains (ignored) "challenges_settled rid outcome s = s"
  | (rejected) w where "runs s = [(rid, w)]"
      and "challenges_settled rid outcome s =
             handleAnalyze_catch rid (observe (Threw rid GenerateCodeChallenges) s)"
  | (resolved) a p q v where "runs s = [(rid, AwaitAll a p q None)]"
      and "challenges_settled rid outcome s =
             promise_all rid
               (s\<lparr>log := Returned rid GenerateCodeChallenges # log s,
                  runs := [(rid, AwaitAll a p q (Some v))]\<rparr>)"
proof (cases "map_of (runs s) rid")
  case None
  then have "challenges_settled rid outcome s = s"
    by (simp add: challenges_settled_def)
  then show ?thesis by (rule ignored)
next
  case (Some w)
  with assms have only: "runs s = [(rid, w)]" by (rule one_run_only)
  show ?thesis
  proof (cases w)
    case AwaitAnalyze
    with Some have "challenges_settled rid outcome s = s"
      by (simp add: challenges_settled_def)
    then show ?thesis by (rule ignored)
  next
    case (AwaitAll a p q c)
    show ?thesis
    proof (cases c)
      case (Some v)
      with AwaitAll \<open>map_of (runs s) rid = Some w\<close>
      have "challenges_settled rid outcome s = s"
        by (simp add: challenges_settled_def)
      then show ?thesis by (rule ignored)
    next
      case None
      show ?thesis
      proof (cases outcome)
        case (Inl e)
        with None AwaitAll \<open>map_of (runs s) rid = Some w\<close>
        have "challenges_settled rid outcome s =
             handleAnalyze_catch rid (observe (Threw rid GenerateCodeChallenges) s)"
          by (simp add: challenges_settled_def)
        with only show ?thesis by (rule rejected)
      next
        case (Inr v)
        with None AwaitAll only \<open>map_of (runs s) rid = Some w\<close>
        have "challenges_settled rid outcome s =
             promise_all rid
               (s\<lparr>log := Returned rid GenerateCodeChallenges # log s,
                  runs := [(rid, AwaitAll a p q (Some v))]\<rparr>)"
          by (simp add: challenges_settled_def state_ops)
        with only AwaitAll None show ?thesis by (intro resolved) simp_all
      qed
    qed
  qed
qed

text \<open>What \<^verbatim>\<open>Promise.all\<close> does to a state with one run.\<close>

lemma promise_all_shape:
  assumes "runs s = [(rid, w)]"
  obtains (waiting) "promise_all rid s = s"
  | (joined) a p q c where "w = AwaitAll a (Some p) (Some q) (Some c)"
      and "promise_all rid s =
             s\<lparr>app := (app s)\<lparr>trainingPlan := Some \<lparr>techStack = skills a, studyPlan = p\<rparr>,
                             quiz := q, challenges := c, activeTab := PLAN,
                             loading := False\<rparr>,
               runs := [], log := Ready rid # log s\<rparr>"
proof (cases w)
  case AwaitAnalyze
  with assms have "promise_all rid s = s" by (simp add: promise_all_def)
  then show ?thesis by (rule waiting)
next
  case (AwaitAll a p q c)
  show ?thesis
  proof (cases "p = None \<or> q = None \<or> c = None")
    case True
    with assms AwaitAll have "promise_all rid s = s"
      by (cases p; cases q; cases c) (simp_all add: promise_all_def)
    then show ?thesis by (rule waiting)
  next
    case False
    then obtain p' q' c' where "p = Some p'" and "q = Some q'" and "c = Some c'"
      by auto
    with assms AwaitAll show ?thesis
      by (intro joined [of a p' q' c'])
         (simp_all add: promise_all_def handleAnalyze_joined_def state_ops)
  qed
qed

lemma traced_initial: "traced rid initial"
  by (simp add: traced_def one_run_def ordered_def initial_def)

lemma ordered_other:
  assumes "ordered l r" and "\<And>n x. y \<noteq> Issued n x" and "\<And>n. y \<noteq> Ready n"
  shows "ordered (y # l) r"
  using assms by (simp add: ordered_def)

lemma logged_more:
  "list_all (returned_logged l) rs \<Longrightarrow> list_all (returned_logged (x # l)) rs"
proof (induction rs)
  case Nil
  show ?case by simp
next
  case (Cons r rs)
  obtain rid w where "r = (rid, w)" by (cases r)
  with Cons show ?case by (cases w) auto
qed

lemma traced_click:
  assumes "traced r s"
  shows "traced r (click_generate s)"
proof (rule click_generate_shape [of s])
  assume "click_generate s = s"
  with assms show ?thesis by simp
next
  fix f assume "click_generate s = s\<lparr>form := f\<rparr>"
  with assms show ?thesis by (simp add: traced_def one_run_def)
next
  fix f
  assume idle: "runs s = [] \<or> \<not> one_run s"
    and eq: "click_generate s =
             s\<lparr>app := (app s)\<lparr>loading := True\<rparr>, form := f,
               runs := runs s @ [(nextRun s, AwaitAnalyze)], nextRun := Suc (nextRun s),
               log := Issued (nextRun s) AnalyzeJobDescription # log s\<rparr>"
  from assms idle have none: "runs s = []" by (simp add: traced_def)
  from assms have "ordered (log s) r" by (simp add: traced_def)
  then have "ordered (Issued (nextRun s) AnalyzeJobDescription # log s) r"
    by (simp add: ordered_def)
  with eq none show ?thesis by (simp add: traced_def one_run_def)
qed

lemma traced_catch:
  assumes "traced r s" and "runs s = [(rid, w)]" and "\<And>n x. y \<noteq> Issued n x"
    and "\<And>n. y \<noteq> Ready n"
  shows "traced r (handleAnalyze_catch rid (observe y s))"
proof -
  from assms(1) have "ordered (log s) r" by (simp add: traced_def)
  then have "ordered (y # log s) r" using assms(3,4) by (rule ordered_other)
  with assms(2) show ?thesis
    by (simp add: traced_def one_run_def caught)
qed

lemma traced_analyzed:
  assumes "traced r s"
  shows "traced r (handleAnalyze_analyzed rid outcome s)"
proof -
  from assms have inv: "one_run s" and ord: "ordered (log s) r"
    by (simp_all add: traced_def)
  from inv show ?thesis
  proof (rule handleAnalyze_analyzed_shape [of s rid outcome])
    assume "handleAnalyze_analyzed rid outcome s = s"
    with assms show ?thesis by simp
  next
    assume only: "runs s = [(rid, AwaitAnalyze)]"
      and eq: "handleAnalyze_analyzed rid outcome s =
             handleAnalyze_catch rid (observe (Threw rid AnalyzeJobDescription) s)"
    have "traced r (handleAnalyze_catch rid (observe (Threw rid AnalyzeJobDescription) s))"
      using assms only by (rule traced_catch) simp_all
    with eq show ?thesis by simp
  next
    fix analysis
    assume only: "runs s = [(rid, AwaitAnalyze)]"
      and eq: "handleAnalyze_analyzed rid outcome s =
             s\<lparr>app := (app s)\<lparr>jobData := Some analysis\<rparr>,
               runs := [(rid, AwaitAll analysis None None None)],
               log := Issued rid GenerateCodeChallenges # Issued rid GenerateQuiz
                        # Issued rid GenerateStudyPlan # Returned rid AnalyzeJobDescription
                        # log s\<rparr>"
    from ord have "ordered (Issued rid GenerateCodeChallenges # Issued rid GenerateQuiz
          # Issued rid GenerateStudyPlan # Returned rid AnalyzeJobDescription # log s) r"
      by (auto simp: ordered_def)
    with eq only inv show ?thesis
      by (simp add: traced_def one_run_def)
  qed
qed

lemma traced_promise_all:
  assumes "runs s = [(rid, w)]" and "loading (app s)" and "stored (jobData (app s)) w"
    and "returned_logged (log s) (rid, w)" and "ordered (log s) r"
  shows "traced r (promise_all rid s)"
  using assms(1)
proof (rule promise_all_shape)
  assume "promise_all rid s = s"
  with assms show ?thesis by (simp add: traced_def one_run_def)
next
  fix a p q c
  assume w: "w = AwaitAll a (Some p) (Some q) (Some c)"
    and eq: "promise_all rid s =
             s\<lparr>app := (app s)\<lparr>trainingPlan := Some \<lparr>techStack = skills a, studyPlan = p\<rparr>,
                             quiz := q, challenges := c, activeTab := PLAN,
                             loading := False\<rparr>,
               runs := [], log := Ready rid # log s\<rparr>"
  from assms(4) w have "Returned rid GenerateStudyPlan \<in> set (log s)"
    and "Returned rid GenerateQuiz \<in> set (log s)"
    and "Returned rid GenerateCodeChallenges \<in> set (log s)"
    by simp_all
  with assms(5) have "ordered (Ready rid # log s) r"
    by (auto simp: ordered_def)
  with eq show ?thesis by (simp add: traced_def one_run_def)
qed

lemma traced_studyPlan:
  assumes "traced r s"
  shows "traced r (studyPlan_settled rid outcome s)"
proof -
  from assms have inv: "one_run s" and ord: "ordered (log s) r"
    and logged: "list_all (returned_logged (log s)) (runs s)"
    by (simp_all add: traced_def)
  from inv show ?thesis
  proof (rule studyPlan_settled_shape [of s rid outcome])
    assume "studyPlan_settled rid outcome s = s"
    with assms show ?thesis by simp
  next
    fix w
    assume only: "runs s = [(rid, w)]"
      and eq: "studyPlan_settled rid outcome s =
             handleAnalyze_catch rid (observe (Threw rid GenerateStudyPlan) s)"
    have "traced r (handleAnalyze_catch rid (observe (Threw rid GenerateStudyPlan) s))"
      using assms only by (rule traced_catch) simp_all
    with eq show ?thesis by simp
  next
    fix a q c v
    let ?s = "s\<lparr>log := Returned rid GenerateStudyPlan # log s,
                  runs := [(rid, AwaitAll a (Some v) q c)]\<rparr>"
    assume only: "runs s = [(rid, AwaitAll a None q c)]"
      and eq: "studyPlan_settled rid outcome s = promise_all rid ?s"
    have "traced r (promise_all rid ?s)"
    proof (rule traced_promise_all)
      show "runs ?s = [(rid, AwaitAll a (Some v) q c)]" by simp
      from inv only show "loading (app ?s)" by (simp add: one_run_def)
      from inv only show "stored (jobData (app ?s)) (AwaitAll a (Some v) q c)"
        by (simp add: one_run_def)
      from logged only show "returned_logged (log ?s) (rid, AwaitAll a (Some v) q c)"
        by auto
      from ord show "ordered (log ?s) r" by (simp add: ordered_def)
    qed
    with eq show ?thesis by simp
  qed
qed

lemma traced_quiz:
  assumes "traced r s"
  shows "traced r (quiz_settled rid outcome s)"
proof -
  from assms have inv: "one_run s" and ord: "ordered (log s) r"
    and logged: "list_all (returned_logged (log s)) (runs s)"
    by (simp_all add: traced_def)
  from inv show ?thesis
  proof (rule quiz_settled_shape [of s rid outcome])
    assume "quiz_settled rid outcome s = s"
    with assms show ?thesis by simp
  next
    fix w
    assume only: "runs s = [(rid, w)]"
      and eq: "quiz_settled rid outcome s =
             handleAnalyze_catch rid (observe (Threw rid GenerateQuiz) s)"
    have "traced r (handleAnalyze_catch rid (observe (Threw rid GenerateQuiz) s))"
      using assms only by (rule traced_catch) simp_all
    with eq show ?thesis by simp
  next
    fix a p c v
    let ?s = "s\<lparr>log := Returned rid GenerateQuiz # log s,
                  runs := [(rid, AwaitAll a p (Some v) c)]\<rparr>"
    assume only: "runs s = [(rid, AwaitAll a p None c)]"
      and eq: "quiz_settled rid outcome s = promise_all rid ?s"
    have "traced r (promise_all rid ?s)"
    proof (rule traced_promise_all)
      show "runs ?s = [(rid, AwaitAll a p (Some v) c)]" by simp
      from inv only show "loading (app ?s)" by (simp add: one_run_def)
      from inv only show "stored (jobData (app ?s)) (AwaitAll a p (Some v) c)"
        by (simp add: one_run_def)
      from logged only show "returned_logged (log ?s) (rid, AwaitAll a p (Some v) c)"
        by auto
      from ord show "ordered (log ?s) r" by (simp add: ordered_def)
    qed
    with eq show ?thesis by simp
  qed
qed

lemma traced_challenges:
  assumes "traced r s"
  shows "traced r (challenges_settled rid outcome s)"
proof -
  from assms have inv: "one_run s" and ord: "ordered (log s) r"
    and logged: "list_all (returned_logged (log s)) (runs s)"
    by (simp_all add: traced_def)
  from inv show ?thesis
  proof (rule challenges_settled_shape [of s rid outcome])
    assume "challenges_settled rid outcome s = s"
    with assms show ?thesis by simp
  next
    fix w
    assume only: "runs s = [(rid, w)]"
      and eq: "challenges_settled rid outcome s =
             handleAnalyze_catch rid (observe (Threw rid GenerateCodeChallenges) s)"
    have "traced r (handleAnalyze_catch rid (observe (Threw rid GenerateCodeChallenges) s))"
      using assms only by (rule traced_catch) simp_all
    with eq show ?thesis by simp
  next
    fix a p q v
    let ?s = "s\<lparr>log := Returned rid GenerateCodeChallenges # log s,
                  runs := [(rid, AwaitAll a p q (Some v))]\<rparr>"
    assume only: "runs s = [(rid, AwaitAll a p q None)]"
      and eq: "challenges_settled rid outcome s = promise_all rid ?s"
    have "traced r (promise_all rid ?s)"
    proof (rule traced_promise_all)
      show "runs ?s = [(rid, AwaitAll a p q (Some v))]" by simp
      from inv only show "loading (app ?s)" by (simp add: one_run_def)
      from inv only show "stored (jobData (app ?s)) (AwaitAll a p q (Some v))"
        by (simp add: one_run_def)
      from logged only show "returned_logged (log ?s) (rid, AwaitAll a p q (Some v))"
        by auto
      from ord show "ordered (log ?s) r" by (simp add: ordered_def)
    qed
    with eq show ?thesis by simp
  qed
qed

lemma traced_refreshQuiz: "traced r s \<Longrightarrow> traced r (refreshQuiz s)"
  by (cases "jobData (app s)")
     (simp_all add: traced_def one_run_def refreshQuiz_def state_ops logged_more ordered_def)

lemma traced_refreshChallenges: "traced r s \<Longrightarrow> traced r (refreshChallenges s)"
  by (cases "jobData (app s)")
     (simp_all add: traced_def one_run_def refreshChallenges_def state_ops logged_more
        ordered_def)

lemma traced_refreshQuiz_settled: "traced r s \<Longrightarrow> traced r (refreshQuiz_settled x s)"
  by (cases "quizRefreshes s"; cases x)
     (simp_all add: traced_def one_run_def refreshQuiz_settled_def state_ops logged_more
        ordered_def)

lemma traced_refreshChallenges_settled:
  "traced r s \<Longrightarrow> traced r (refreshChallenges_settled x s)"
  by (cases "challengeRefreshes s"; cases x)
     (simp_all add: traced_def one_run_def refreshChallenges_settled_def state_ops logged_more
        ordered_def)

lemma traced_step:
  assumes "traced r s"
  shows "traced r (step e s)"
proof (cases e)
  case (EditForm f)
  with assms show ?thesis by (simp add: traced_def one_run_def)
next
  case (Navigate t)
  with assms show ?thesis by (simp add: traced_def one_run_def state_ops)
qed (use assms in \<open>simp_all add: traced_click traced_analyzed traced_studyPlan traced_quiz
      traced_challenges traced_refreshQuiz traced_refreshChallenges
      traced_refreshQuiz_settled traced_refreshChallenges_settled\<close>)

lemma traced_exec: "traced r s \<Longrightarrow> traced r (exec es s)"
  by (induction es arbitrary: s) (simp_all add: traced_step)

lemma reachable_one_run: "one_run (exec es initial)"
  using traced_exec [OF traced_initial, of 0 es] by (simp add: traced_def)

text \<open>A step that does not end the join leaves the four slots of the Ready state alone.\<close>

lemma slots_kept_same: "slots_kept s s"
  by (simp add: slots_kept_def)

lemma slots_kept_catch: "slots_kept s (handleAnalyze_catch rid (observe y s))"
  by (simp add: slots_kept_def caught)

lemma promise_all_slots:
  assumes "runs s' = [(rid, w)]" and "log s' = Returned rid x # log s" and "app s' = app s"
  shows "log (promise_all rid s') = Ready rid # Returned rid x # log s
          \<or> slots_kept s (promise_all rid s')"
  using assms(1)
proof (rule promise_all_shape)
  assume "promise_all rid s' = s'"
  with assms show ?thesis by (simp add: slots_kept_def)
next
  fix a p q c
  assume "promise_all rid s' =
             s'\<lparr>app := (app s')\<lparr>trainingPlan := Some \<lparr>techStack = skills a, studyPlan = p\<rparr>,
                             quiz := q, challenges := c, activeTab := PLAN,
                             loading := False\<rparr>,
               runs := [], log := Ready rid # log s'\<rparr>"
  with assms show ?thesis by simp
qed

lemma step_slots:
  assumes "one_run s"
  shows "(\<exists>rid x. log (step e s) = Ready rid # Returned rid x # log s)
    \<or> (\<exists>t. e = Navigate t) \<or> (\<exists>x. e = RefreshQuizSettled x)
    \<or> (\<exists>x. e = RefreshChallengesSettled x)
    \<or> slots_kept s (step e s)"
proof (cases e)
  case (EditForm f)
  then show ?thesis by (simp add: slots_kept_def)
next
  case ClickGenerate
  have "slots_kept s (click_generate s)"
    by (rule click_generate_shape [of s]) (simp_all add: slots_kept_def)
  with ClickGenerate show ?thesis by simp
next
  case (Navigate t)
  then show ?thesis by simp
next
  case (AnalyzeSettled rid outcome)
  from assms have "slots_kept s (handleAnalyze_analyzed rid outcome s)"
    by (rule handleAnalyze_analyzed_shape [of s rid outcome])
       (simp_all add: slots_kept_same slots_kept_catch, simp add: slots_kept_def)
  with AnalyzeSettled show ?thesis by simp
next
  case (StudyPlanSettled rid outcome)
  from assms
  have "log (studyPlan_settled rid outcome s) = Ready rid # Returned rid GenerateStudyPlan # log s
          \<or> slots_kept s (studyPlan_settled rid outcome s)"
  proof (rule studyPlan_settled_shape [of s rid outcome])
    fix a q c v
    let ?s = "s\<lparr>log := Returned rid GenerateStudyPlan # log s,
                  runs := [(rid, AwaitAll a (Some v) q c)]\<rparr>"
    assume eq: "studyPlan_settled rid outcome s = promise_all rid ?s"
    have "log (promise_all rid ?s) = Ready rid # Returned rid GenerateStudyPlan # log s
          \<or> slots_kept s (promise_all rid ?s)"
      by (rule promise_all_slots) simp_all
    with eq show ?thesis by simp
  qed (simp_all add: slots_kept_same slots_kept_catch)
  with StudyPlanSettled show ?thesis by auto
next
  case (QuizSettled rid outcome)
  from assms
  have "log (quiz_settled rid outcome s) = Ready rid # Returned rid GenerateQuiz # log s
          \<or> slots_kept s (quiz_settled rid outcome s)"
  proof (rule quiz_settled_shape [of s rid outcome])
    fix a p c v
    let ?s = "s\<lparr>log := Returned rid GenerateQuiz # log s,
                  runs := [(rid, AwaitAll a p (Some v) c)]\<rparr>"
    assume eq: "quiz_settled rid outcome s = promise_all rid ?s"
    have "log (promise_all rid ?s) = Ready rid # Returned rid GenerateQuiz # log s
          \<or> slots_kept s (promise_all rid ?s)"
      by (rule promise_all_slots) simp_all
    with eq show ?thesis by simp
  qed (simp_all add: slots_kept_same slots_kept_catch)
  with QuizSettled show ?thesis by auto
next
  case (ChallengesSettled rid outcome)
  from assms
  have "log (challenges_settled rid outcome s)
            = Ready rid # Returned rid GenerateCodeChallenges # log s
          \<or> slots_kept s (challenges_settled rid outcome s)"
  proof (rule challenges_settled_shape [of s rid outcome])
    fix a p q v
    let ?s = "s\<lparr>log := Returned rid GenerateCodeChallenges # log s,
                  runs := [(rid, AwaitAll a p q (Some v))]\<rparr>"
    assume eq: "challenges_settled rid outcome s = promise_all rid ?s"
    have "log (promise_all rid ?s) = Ready rid # Returned rid GenerateCodeChallenges # log s
          \<or> slots_kept s (promise_all rid ?s)"
      by (rule promise_all_slots) simp_all
    with eq show ?thesis by simp
  qed (simp_all add: slots_kept_same slots_kept_catch)
  with ChallengesSettled show ?thesis by auto
next
  case ClickRefreshQuiz
  then show ?thesis
    by (cases "jobData (app s)") (simp_all add: refreshQuiz_def slots_kept_def state_ops)
next
  case (RefreshQuizSettled x)
  then show ?thesis by simp
next
  case ClickRefreshChallenges
  then show ?thesis
    by (cases "jobData (app s)") (simp_all add: refreshChallenges_def slots_kept_def state_ops)
next
  case (RefreshChallengesSettled x)
  then show ?thesis by simp
qed

text \<open>A run from the first state, state by state.\<close>

lemma amazon_submit:
  "handleSubmit amazon_form
     = (amazon_form, Some (utf16 ''Backend Engineer, Java, AWS'', None, Some (utf16 ''Amazon'')))"
proof -
  have name: "trim (utf16 ''Amazon'') \<noteq> []"
    by (simp add: trim_def whitespace_def utf16_def)
  have jd: "trim (utf16 ''Backend Engineer, Java, AWS'') \<noteq> []"
    by (simp add: trim_def whitespace_def utf16_def)
  from name jd show ?thesis
    by (simp add: handleSubmit_def amazon_form_def)
qed

lemma started:
  "exec [EditForm amazon_form, ClickGenerate] initial =
     initial\<lparr>app := (app initial)\<lparr>loading := True\<rparr>, form := amazon_form,
             runs := [(0, AwaitAnalyze)], nextRun := 1,
             log := [Issued 0 AnalyzeJobDescription]\<rparr>"
  by (simp add: click_generate_def amazon_submit handleAnalyze_def state_ops initial_def Let_def)

lemma analyzed:
  "exec [EditForm amazon_form, ClickGenerate, AnalyzeSettled 0 (Inr amazon_job)] initial =
     initial\<lparr>app := (app initial)\<lparr>loading := True, jobData := Some amazon_job\<rparr>,
             form := amazon_form,
             runs := [(0, AwaitAll amazon_job None None None)], nextRun := 1,
             log := [Issued 0 GenerateCodeChallenges, Issued 0 GenerateQuiz,
                     Issued 0 GenerateStudyPlan, Returned 0 AnalyzeJobDescription,
                     Issued 0 AnalyzeJobDescription]\<rparr>"
proof -
  have "exec [EditForm amazon_form, ClickGenerate, AnalyzeSettled 0 (Inr amazon_job)] initial
      = step (AnalyzeSettled 0 (Inr amazon_job)) (exec [EditForm amazon_form, ClickGenerate] initial)"
    by simp
  also have "\<dots> = initial\<lparr>app := (app initial)\<lparr>loading := True, jobData := Some amazon_job\<rparr>,
             form := amazon_form,
             runs := [(0, AwaitAll amazon_job None None None)], nextRun := 1,
             log := [Issued 0 GenerateCodeChallenges, Issued 0 GenerateQuiz,
                     Issued 0 GenerateStudyPlan, Returned 0 AnalyzeJobDescription,
                     Issued 0 AnalyzeJobDescription]\<rparr>"
    by (simp only: started) (simp add: handleAnalyze_analyzed_def state_ops initial_def)
  finally show ?thesis .
qed

lemma two_returned:
  "exec [EditForm amazon_form, ClickGenerate, AnalyzeSettled 0 (Inr amazon_job),
         QuizSettled 0 (Inr [in_range_question]), ChallengesSettled 0 (Inr [])] initial =
     initial\<lparr>app := (app initial)\<lparr>loading := True, jobData := Some amazon_job\<rparr>,
             form := amazon_form,
             runs := [(0, AwaitAll amazon_job None (Some [in_range_question]) (Some []))],
             nextRun := 1,
             log := [Returned 0 GenerateCodeChallenges, Returned 0 GenerateQuiz,
                     Issued 0 GenerateCodeChallenges, Issued 0 GenerateQuiz,
                     Issued 0 GenerateStudyPlan, Returned 0 AnalyzeJobDescription,
                     Issued 0 AnalyzeJobDescription]\<rparr>"
proof -
  have "exec [EditForm amazon_form, ClickGenerate, AnalyzeSettled 0 (Inr amazon_job),
         QuizSettled 0 (Inr [in_range_question]), ChallengesSettled 0 (Inr [])] initial
      = step (ChallengesSettled 0 (Inr []))
          (step (QuizSettled 0 (Inr [in_range_question]))
             (exec [EditForm amazon_form, ClickGenerate, AnalyzeSettled 0 (Inr amazon_job)]
                initial))"
    by simp
  also have "\<dots> = initial\<lparr>app := (app initial)\<lparr>loading := True, jobData := Some amazon_job\<rparr>,
             form := amazon_form,
             runs := [(0, AwaitAll amazon_job None (Some [in_range_question]) (Some []))],
             nextRun := 1,
             log := [Returned 0 GenerateCodeChallenges, Returned 0 GenerateQuiz,
                     Issued 0 GenerateCodeChallenges, Issued 0 GenerateQuiz,
                     Issued 0 GenerateStudyPlan, Returned 0 AnalyzeJobDescription,
                     Issued 0 AnalyzeJobDescription]\<rparr>"
    by (simp only: analyzed)
       (simp add: quiz_settled_def challenges_settled_def promise_all_def state_ops initial_def)
  finally show ?thesis .
qed

lemma ready:
  "step (StudyPlanSettled 0 (Inr []))
     (exec [EditForm amazon_form, ClickGenerate, AnalyzeSettled 0 (Inr amazon_job),
            QuizSettled 0 (Inr [in_range_question]), ChallengesSettled 0 (Inr [])] initial) =
     initial\<lparr>app := \<lparr>activeTab = PLAN, loading = False, jobData = Some amazon_job,
                     trainingPlan = Some \<lparr>techStack = [''Java'', ''AWS''], studyPlan = []\<rparr>,
                     quiz = [in_range_question], challenges = []\<rparr>,
             form := amazon_form, runs := [], nextRun := 1,
             log := [Ready 0, Returned 0 GenerateStudyPlan,
                     Returned 0 GenerateCodeChallenges, Returned 0 GenerateQuiz,
                     Issued 0 GenerateCodeChallenges, Issued 0 GenerateQuiz,
                     Issued 0 GenerateStudyPlan, Returned 0 AnalyzeJobDescription,
                     Issued 0 AnalyzeJobDescription]\<rparr>"
  by (simp only: two_returned)
     (simp add: studyPlan_settled_def promise_all_def handleAnalyze_joined_def state_ops
        initial_def amazon_job_def)

text \<open>
  Claim C1. In the log of every execution from the first state, and for every run: each
  of the three dependent calls is issued only after \<^verbatim>\<open>analyzeJobDescription\<close> has
  returned to that run, and the run becomes Ready only after \<^verbatim>\<open>generateStudyPlan\<close>,
  \<^verbatim>\<open>generateQuiz\<close> and \<^verbatim>\<open>generateCodeChallenges\<close> have each returned to it. The slots of
  the Ready state are written in that one step: any step other than the one that logs
  Ready right after the last return (and other than a navigation or the arrival of a
  refreshed quiz or challenge list) leaves the training plan, the quiz, the challenges
  and the active tab as they were.
\<close>

theorem analysis_then_generation_then_ready:
  "preceded_by (Returned rid AnalyzeJobDescription) (Issued rid GenerateStudyPlan)
     (log (exec es initial))
   \<and> preceded_by (Returned rid AnalyzeJobDescription) (Issued rid GenerateQuiz)
       (log (exec es initial))
   \<and> preceded_by (Returned rid AnalyzeJobDescription) (Issued rid GenerateCodeChallenges)
       (log (exec es initial))
   \<and> preceded_by (Returned rid GenerateStudyPlan) (Ready rid) (log (exec es initial))
   \<and> preceded_by (Returned rid GenerateQuiz) (Ready rid) (log (exec es initial))
   \<and> preceded_by (Returned rid GenerateCodeChallenges) (Ready rid) (log (exec es initial))
   \<and> ((\<exists>n x. log (exec (es @ [e]) initial) = Ready n # Returned n x # log (exec es initial))
       \<or> (\<exists>t. e = Navigate t) \<or> (\<exists>x. e = RefreshQuizSettled x)
       \<or> (\<exists>x. e = RefreshChallengesSettled x)
       \<or> (trainingPlan (app (exec (es @ [e]) initial)) = trainingPlan (app (exec es initial))
           \<and> quiz (app (exec (es @ [e]) initial)) = quiz (app (exec es initial))
           \<and> challenges (app (exec (es @ [e]) initial)) = challenges (app (exec es initial))
           \<and> activeTab (app (exec (es @ [e]) initial)) = activeTab (app (exec es initial))))"
proof -
  have "traced rid (exec es initial)"
    by (rule traced_exec [OF traced_initial])
  then have order: "ordered (log (exec es initial)) rid"
    by (simp add: traced_def)
  have "one_run (exec es initial)"
    by (rule reachable_one_run)
  from step_slots [OF this, of e] have slots:
    "(\<exists>n x. log (exec (es @ [e]) initial) = Ready n # Returned n x # log (exec es initial))
       \<or> (\<exists>t. e = Navigate t) \<or> (\<exists>x. e = RefreshQuizSettled x)
       \<or> (\<exists>x. e = RefreshChallengesSettled x)
       \<or> slots_kept (exec es initial) (exec (es @ [e]) initial)"
    by (simp add: exec_append)
  from order slots show ?thesis
    unfolding ordered_def slots_kept_def by blast
qed

text \<open>
  The theorem at a run in which the quiz, the challenges and the study plan return in
  that order: the log, and the active tab and training plan before and after the last
  return.
\<close>

theorem analysis_then_generation_then_ready_witness:
  "log (exec ([EditForm amazon_form, ClickGenerate, AnalyzeSettled 0 (Inr amazon_job),
               QuizSettled 0 (Inr [in_range_question]), ChallengesSettled 0 (Inr [])]
              @ [StudyPlanSettled 0 (Inr [])]) initial)
     = [Ready 0, Returned 0 GenerateStudyPlan, Returned 0 GenerateCodeChallenges,
        Returned 0 GenerateQuiz, Issued 0 GenerateCodeChallenges, Issued 0 GenerateQuiz,
        Issued 0 GenerateStudyPlan, Returned 0 AnalyzeJobDescription,
        Issued 0 AnalyzeJobDescription]
   \<and> preceded_by (Returned 0 AnalyzeJobDescription) (Issued 0 GenerateQuiz)
       [Ready 0, Returned 0 GenerateStudyPlan, Returned 0 GenerateCodeChallenges,
        Returned 0 GenerateQuiz, Issued 0 GenerateCodeChallenges, Issued 0 GenerateQuiz,
        Issued 0 GenerateStudyPlan, Returned 0 AnalyzeJobDescription,
        Issued 0 AnalyzeJobDescription]
   \<and> preceded_by (Returned 0 GenerateStudyPlan) (Ready 0)
       [Ready 0, Returned 0 GenerateStudyPlan, Returned 0 GenerateCodeChallenges,
        Returned 0 GenerateQuiz, Issued 0 GenerateCodeChallenges, Issued 0 GenerateQuiz,
        Issued 0 GenerateStudyPlan, Returned 0 AnalyzeJobDescription,
        Issued 0 AnalyzeJobDescription]
   \<and> activeTab (app (exec [EditForm amazon_form, ClickGenerate,
                             AnalyzeSettled 0 (Inr amazon_job),
                             QuizSettled 0 (Inr [in_range_question]),
                             ChallengesSettled 0 (Inr [])] initial)) = ANALYSIS
   \<and> trainingPlan (app (exec [EditForm amazon_form, ClickGenerate,
                             AnalyzeSettled 0 (Inr amazon_job),
                             QuizSettled 0 (Inr [in_range_question]),
                             ChallengesSettled 0 (Inr [])] initial)) = None
   \<and> activeTab (app (exec ([EditForm amazon_form, ClickGenerate,
                             AnalyzeSettled 0 (Inr amazon_job),
                             QuizSettled 0 (Inr [in_range_question]),
                             ChallengesSettled 0 (Inr [])]
                            @ [StudyPlanSettled 0 (Inr [])]) initial)) = PLAN
   \<and> quiz (app (exec ([EditForm amazon_form, ClickGenerate,
                             AnalyzeSettled 0 (Inr amazon_job),
                             QuizSettled 0 (Inr [in_range_question]),
                             ChallengesSettled 0 (Inr [])]
                            @ [StudyPlanSettled 0 (Inr [])]) initial)) = [in_range_question]"
proof -
  let ?es = "[EditForm amazon_form, ClickGenerate, AnalyzeSettled 0 (Inr amazon_job),
              QuizSettled 0 (Inr [in_range_question]), ChallengesSettled 0 (Inr [])]"
  let ?e = "StudyPlanSettled 0 (Inr [])"
  let ?l = "[Ready 0, Returned 0 GenerateStudyPlan, Returned 0 GenerateCodeChallenges,
        Returned 0 GenerateQuiz, Issued 0 GenerateCodeChallenges, Issued 0 GenerateQuiz,
        Issued 0 GenerateStudyPlan, Returned 0 AnalyzeJobDescription,
        Issued 0 AnalyzeJobDescription]"
  have last: "exec (?es @ [?e]) initial = step ?e (exec ?es initial)"
    by (simp only: exec_append exec.simps)
  have l: "log (exec (?es @ [?e]) initial) = ?l"
    by (simp only: last ready) simp
  have tab: "activeTab (app (exec (?es @ [?e]) initial)) = PLAN"
    by (simp only: last ready) simp
  have questions: "quiz (app (exec (?es @ [?e]) initial)) = [in_range_question]"
    by (simp only: last ready) simp
  have before: "activeTab (app (exec ?es initial)) = ANALYSIS"
    "trainingPlan (app (exec ?es initial)) = None"
    by (simp_all only: two_returned) (simp_all add: initial_def)
  from analysis_then_generation_then_ready [of 0 "?es @ [?e]"]
  have "preceded_by (Returned 0 AnalyzeJobDescription) (Issued 0 GenerateQuiz)
          (log (exec (?es @ [?e]) initial))"
    and "preceded_by (Returned 0 GenerateStudyPlan) (Ready 0) (log (exec (?es @ [?e]) initial))"
    by blast+
  with l tab questions before show ?thesis
    by simp
qed

text \<open>
  Claim C6 as stated fails where it says that the pipeline returns to Idle: when the
  join rejects, the analysis stored by \<^verbatim>\<open>setJobData\<close> before the join stays in its slot,
  so the state after the alert is not the Idle state the run started in.
\<close>

theorem join_failure_keeps_analysis:
  "Idle initial
   \<and> \<not> Idle (exec [EditForm amazon_form, ClickGenerate, AnalyzeSettled 0 (Inr amazon_job),
                    QuizSettled 0 (Inl (ServiceError ''offline''))] initial)
   \<and> jobData (app (exec [EditForm amazon_form, ClickGenerate, AnalyzeSettled 0 (Inr amazon_job),
                    QuizSettled 0 (Inl (ServiceError ''offline''))] initial)) = Some amazon_job
   \<and> alerts (exec [EditForm amazon_form, ClickGenerate, AnalyzeSettled 0 (Inr amazon_job),
                    QuizSettled 0 (Inl (ServiceError ''offline''))] initial)
       = [''Something went wrong during analysis. Please try again.'']
   \<and> \<not> loading (app (exec [EditForm amazon_form, ClickGenerate, AnalyzeSettled 0 (Inr amazon_job),
                    QuizSettled 0 (Inl (ServiceError ''offline''))] initial))"
proof -
  have "exec [EditForm amazon_form, ClickGenerate, AnalyzeSettled 0 (Inr amazon_job),
              QuizSettled 0 (Inl (ServiceError ''offline''))] initial
      = step (QuizSettled 0 (Inl (ServiceError ''offline'')))
          (exec [EditForm amazon_form, ClickGenerate, AnalyzeSettled 0 (Inr amazon_job)] initial)"
    by simp
  also have "\<dots> =
     initial\<lparr>app := (app initial)\<lparr>jobData := Some amazon_job\<rparr>, form := amazon_form,
             runs := [], nextRun := 1,
             alerts := [''Something went wrong during analysis. Please try again.''],
             log := [Threw 0 GenerateQuiz, Issued 0 GenerateCodeChallenges,
                     Issued 0 GenerateQuiz, Issued 0 GenerateStudyPlan,
                     Returned 0 AnalyzeJobDescription, Issued 0 AnalyzeJobDescription]\<rparr>"
    by (simp only: analyzed)
       (simp add: quiz_settled_def handleAnalyze_catch_def state_ops initial_def)
  finally show ?thesis
    by (simp add: Idle_def initial_def)
qed

text \<open>
  Claim C6, amended. When the promise of the analyze step or one of the three promises
  of the join rejects while the run waits for it, the step is the \<^verbatim>\<open>catch\<close> block and the
  \<^verbatim>\<open>finally\<close> block: the alert is shown, the loading flag is cleared, the run is over,
  the rejection is the only new entry of the log (no call is issued again), and every
  other slot (active tab, training plan, quiz, challenges, and the analysis slot too) is
  as it was before the step. In an execution from the first state the run is the only
  one, so nothing is suspended afterwards and the button takes a new submission; and a
  run that waits at the join has already stored its analysis, which therefore stays.
\<close>

theorem run_aborted_on_exception:
  "(map_of (runs s) rid = Some AwaitAnalyze \<longrightarrow>
      step (AnalyzeSettled rid (Inl e)) s =
        s\<lparr>app := (app s)\<lparr>loading := False\<rparr>,
          runs := filter (\<lambda>(r, w). r \<noteq> rid) (runs s),
          alerts := ''Something went wrong during analysis. Please try again.'' # alerts s,
          log := Threw rid AnalyzeJobDescription # log s\<rparr>)
   \<and> (map_of (runs s) rid = Some (AwaitAll a None q c) \<longrightarrow>
      step (StudyPlanSettled rid (Inl e)) s =
        s\<lparr>app := (app s)\<lparr>loading := False\<rparr>,
          runs := filter (\<lambda>(r, w). r \<noteq> rid) (runs s),
          alerts := ''Something went wrong during analysis. Please try again.'' # alerts s,
          log := Threw rid GenerateStudyPlan # log s\<rparr>)
   \<and> (map_of (runs s) rid = Some (AwaitAll a p None c) \<longrightarrow>
      step (QuizSettled rid (Inl e)) s =
        s\<lparr>app := (app s)\<lparr>loading := False\<rparr>,
          runs := filter (\<lambda>(r, w). r \<noteq> rid) (runs s),
          alerts := ''Something went wrong during analysis. Please try again.'' # alerts s,
          log := Threw rid GenerateQuiz # log s\<rparr>)
   \<and> (map_of (runs s) rid = Some (AwaitAll a p q None) \<longrightarrow>
      step (ChallengesSettled rid (Inl e)) s =
        s\<lparr>app := (app s)\<lparr>loading := False\<rparr>,
          runs := filter (\<lambda>(r, w). r \<noteq> rid) (runs s),
          alerts := ''Something went wrong during analysis. Please try again.'' # alerts s,
          log := Threw rid GenerateCodeChallenges # log s\<rparr>)
   \<and> (map_of (runs (exec es initial)) rid = Some w \<longrightarrow>
        runs (exec es initial) = [(rid, w)] \<and> loading (app (exec es initial)))
   \<and> (map_of (runs (exec es initial)) rid = Some (AwaitAll a p q c) \<longrightarrow>
        jobData (app (exec es initial)) = Some a)"
proof -
  have first: "map_of (runs s) rid = Some AwaitAnalyze \<longrightarrow>
      step (AnalyzeSettled rid (Inl e)) s =
        s\<lparr>app := (app s)\<lparr>loading := False\<rparr>,
          runs := filter (\<lambda>(r, w). r \<noteq> rid) (runs s),
          alerts := ''Something went wrong during analysis. Please try again.'' # alerts s,
          log := Threw rid AnalyzeJobDescription # log s\<rparr>"
    by (simp add: handleAnalyze_analyzed_def caught)
  have plan: "map_of (runs s) rid = Some (AwaitAll a None q c) \<longrightarrow>
      step (StudyPlanSettled rid (Inl e)) s =
        s\<lparr>app := (app s)\<lparr>loading := False\<rparr>,
          runs := filter (\<lambda>(r, w). r \<noteq> rid) (runs s),
          alerts := ''Something went wrong during analysis. Please try again.'' # alerts s,
          log := Threw rid GenerateStudyPlan # log s\<rparr>"
    by (simp add: studyPlan_settled_def caught)
  have questions: "map_of (runs s) rid = Some (AwaitAll a p None c) \<longrightarrow>
      step (QuizSettled rid (Inl e)) s =
        s\<lparr>app := (app s)\<lparr>loading := False\<rparr>,
          runs := filter (\<lambda>(r, w). r \<noteq> rid) (runs s),
          alerts := ''Something went wrong during analysis. Please try again.'' # alerts s,
          log := Threw rid GenerateQuiz # log s\<rparr>"
    by (cases p) (simp_all add: quiz_settled_def caught)
  have code: "map_of (runs s) rid = Some (AwaitAll a p q None) \<longrightarrow>
      step (ChallengesSettled rid (Inl e)) s =
        s\<lparr>app := (app s)\<lparr>loading := False\<rparr>,
          runs := filter (\<lambda>(r, w). r \<noteq> rid) (runs s),
          alerts := ''Something went wrong during analysis. Please try again.'' # alerts s,
          log := Threw rid GenerateCodeChallenges # log s\<rparr>"
    by (cases p; cases q) (simp_all add: challenges_settled_def caught)
  have inv: "one_run (exec es initial)"
    by (rule reachable_one_run)
  have only: "map_of (runs (exec es initial)) rid = Some w \<longrightarrow>
        runs (exec es initial) = [(rid, w)] \<and> loading (app (exec es initial))"
  proof
    assume "map_of (runs (exec es initial)) rid = Some w"
    with inv have "runs (exec es initial) = [(rid, w)]" by (rule one_run_only)
    with inv show "runs (exec es initial) = [(rid, w)] \<and> loading (app (exec es initial))"
      by (simp add: one_run_def)
  qed
  have kept: "map_of (runs (exec es initial)) rid = Some (AwaitAll a p q c) \<longrightarrow>
        jobData (app (exec es initial)) = Some a"
  proof
    assume "map_of (runs (exec es initial)) rid = Some (AwaitAll a p q c)"
    with inv have "runs (exec es initial) = [(rid, AwaitAll a p q c)]" by (rule one_run_only)
    with inv show "jobData (app (exec es initial)) = Some a"
      by (simp add: one_run_def)
  qed
  from first plan questions code only kept show ?thesis
    by blast
qed

text \<open>
  The theorem when the analyze step rejects and when the quiz promise of the join
  rejects, and the next click on the button after the first.
\<close>

theorem run_aborted_on_exception_witness:
  "step (AnalyzeSettled 0 (Inl (ServiceError ''offline'')))
       (exec [EditForm amazon_form, ClickGenerate] initial)
     = initial\<lparr>form := amazon_form, nextRun := 1,
               alerts := [''Something went wrong during analysis. Please try again.''],
               log := [Threw 0 AnalyzeJobDescription, Issued 0 AnalyzeJobDescription]\<rparr>
   \<and> step (QuizSettled 0 (Inl (ServiceError ''offline'')))
       (exec [EditForm amazon_form, ClickGenerate, AnalyzeSettled 0 (Inr amazon_job)] initial)
     = initial\<lparr>app := (app initial)\<lparr>jobData := Some amazon_job\<rparr>, form := amazon_form,
               nextRun := 1,
               alerts := [''Something went wrong during analysis. Please try again.''],
               log := [Threw 0 GenerateQuiz, Issued 0 GenerateCodeChallenges,
                       Issued 0 GenerateQuiz, Issued 0 GenerateStudyPlan,
                       Returned 0 AnalyzeJobDescription, Issued 0 AnalyzeJobDescription]\<rparr>
   \<and> runs (step ClickGenerate
             (step (AnalyzeSettled 0 (Inl (ServiceError ''offline'')))
                (exec [EditForm amazon_form, ClickGenerate] initial)))
     = [(1, AwaitAnalyze)]
   \<and> runs (exec [EditForm amazon_form, ClickGenerate, AnalyzeSettled 0 (Inr amazon_job)] initial)
     = [(0, AwaitAll amazon_job None None None)]
   \<and> jobData (app (exec [EditForm amazon_form, ClickGenerate,
                          AnalyzeSettled 0 (Inr amazon_job)] initial)) = Some amazon_job"
proof -
  let ?s1 = "exec [EditForm amazon_form, ClickGenerate] initial"
  let ?s2 = "exec [EditForm amazon_form, ClickGenerate, AnalyzeSettled 0 (Inr amazon_job)] initial"
  let ?x = "ServiceError ''offline''"
  have at1: "map_of (runs ?s1) 0 = Some AwaitAnalyze"
    by (simp only: started) simp
  have at2: "map_of (runs ?s2) 0 = Some (AwaitAll amazon_job None None None)"
    by (simp only: analyzed) simp
  from run_aborted_on_exception [of ?s1 0 ?x] at1
  have "step (AnalyzeSettled 0 (Inl ?x)) ?s1 =
        ?s1\<lparr>app := (app ?s1)\<lparr>loading := False\<rparr>,
          runs := filter (\<lambda>(r, w). r \<noteq> 0) (runs ?s1),
          alerts := ''Something went wrong during analysis. Please try again.'' # alerts ?s1,
          log := Threw 0 AnalyzeJobDescription # log ?s1\<rparr>"
    by blast
  then have a: "step (AnalyzeSettled 0 (Inl ?x)) ?s1
     = initial\<lparr>form := amazon_form, nextRun := 1,
               alerts := [''Something went wrong during analysis. Please try again.''],
               log := [Threw 0 AnalyzeJobDescription, Issued 0 AnalyzeJobDescription]\<rparr>"
    by (simp only: started) (simp add: initial_def)
  from run_aborted_on_exception
         [where s = ?s2 and rid = 0 and e = ?x and a = amazon_job and p = None and c = None]
       at2
  have "step (QuizSettled 0 (Inl ?x)) ?s2 =
        ?s2\<lparr>app := (app ?s2)\<lparr>loading := False\<rparr>,
          runs := filter (\<lambda>(r, w). r \<noteq> 0) (runs ?s2),
          alerts := ''Something went wrong during analysis. Please try again.'' # alerts ?s2,
          log := Threw 0 GenerateQuiz # log ?s2\<rparr>"
    by blast
  then have b: "step (QuizSettled 0 (Inl ?x)) ?s2
     = initial\<lparr>app := (app initial)\<lparr>jobData := Some amazon_job\<rparr>, form := amazon_form,
               nextRun := 1,
               alerts := [''Something went wrong during analysis. Please try again.''],
               log := [Threw 0 GenerateQuiz, Issued 0 GenerateCodeChallenges,
                       Issued 0 GenerateQuiz, Issued 0 GenerateStudyPlan,
                       Returned 0 AnalyzeJobDescription, Issued 0 AnalyzeJobDescription]\<rparr>"
    by (simp only: analyzed) (simp add: initial_def)
  have c: "runs (step ClickGenerate (step (AnalyzeSettled 0 (Inl ?x)) ?s1)) = [(1, AwaitAnalyze)]"
    by (simp only: a)
       (simp add: click_generate_def amazon_submit handleAnalyze_def state_ops initial_def Let_def)
  note r = run_aborted_on_exception
         [where es = "[EditForm amazon_form, ClickGenerate, AnalyzeSettled 0 (Inr amazon_job)]"
            and rid = 0 and w = "AwaitAll amazon_job None None None" and a = amazon_job
            and p = None and q = None and c = None]
  from r at2 have d: "runs ?s2 = [(0, AwaitAll amazon_job None None None)]"
    by blast
  from r at2 have e: "jobData (app ?s2) = Some amazon_job"
    by blast
  from a b c d e show ?thesis by simp
qed

text \<open>
  Claim C8. In every execution from the first state at most one invocation of
  \<^verbatim>\<open>handleAnalyze\<close> is under way, and the loading flag is set exactly while one is. In
  any state with the loading flag set, a click on the button changes nothing: no
  second call of \<^verbatim>\<open>analyzeJobDescription\<close> is issued.
\<close>

theorem one_pipeline_run_at_a_time:
  "length (runs (exec es initial)) \<le> 1
   \<and> (loading (app (exec es initial)) \<longleftrightarrow> runs (exec es initial) \<noteq> [])
   \<and> (loading (app s) \<longrightarrow> step ClickGenerate s = s)
   \<and> (loading (app (exec es initial)) \<longrightarrow>
        exec (es @ [ClickGenerate]) initial = exec es initial)"
proof -
  have inv: "one_run (exec es initial)"
    by (rule reachable_one_run)
  have refused: "loading (app t) \<longrightarrow> step ClickGenerate t = t" for t
    by (simp add: click_generate_def)
  from inv refused [of s] refused [of "exec es initial"] show ?thesis
    by (simp add: one_run_def exec_append)
qed

text \<open>The theorem at a second click while the first run waits for its analysis.\<close>

theorem one_pipeline_run_at_a_time_witness:
  "runs (exec [EditForm amazon_form, ClickGenerate] initial) = [(0, AwaitAnalyze)]
   \<and> loading (app (exec [EditForm amazon_form, ClickGenerate] initial))
   \<and> step ClickGenerate (exec [EditForm amazon_form, ClickGenerate] initial)
       = exec [EditForm amazon_form, ClickGenerate] initial
   \<and> exec ([EditForm amazon_form, ClickGenerate] @ [ClickGenerate]) initial
       = exec [EditForm amazon_form, ClickGenerate] initial
   \<and> log (exec ([EditForm amazon_form, ClickGenerate] @ [ClickGenerate]) initial)
       = [Issued 0 AnalyzeJobDescription]"
proof -
  let ?es = "[EditForm amazon_form, ClickGenerate]"
  have busy: "loading (app (exec ?es initial))"
    by (simp only: started) simp
  have one: "runs (exec ?es initial) = [(0, AwaitAnalyze)]"
    by (simp only: started) simp
  have issued: "log (exec ?es initial) = [Issued 0 AnalyzeJobDescription]"
    by (simp only: started) simp
  note r = one_pipeline_run_at_a_time [of ?es "exec ?es initial"]
  from r busy have refused: "step ClickGenerate (exec ?es initial) = exec ?es initial"
    by blast
  from r busy have same: "exec (?es @ [ClickGenerate]) initial = exec ?es initial"
    by blast
  from busy one refused same issued show ?thesis
    by simp
qed

end
